theory Spec2Isabelle
  imports Complex_Main
begin

section \<open>JavaScript values, request bodies and errors\<close>

text \<open>
  The SDK is TypeScript: a request body is a plain object whose optional fields may be
  absent, and the code tests fields both by presence (\<open>'feesCovered' in body\<close>) and by
  truthiness (\<open>if (body.signatureId)\<close>). A body is therefore a map from field names
  to values; \<open>delete body.f\<close> removes the key. The number-valued fields read here
  (\<open>contractType\<close>, counts) hold integers.
\<close>

datatype jsval =
    Undefined
  | Null
  | Bool bool
  | Num int
  | Str string
  | Obj "(string \<times> jsval) list"

type_synonym body = "string \<rightharpoonup> jsval"

text \<open>JavaScript truthiness (\<open>ToBoolean\<close>) on the values above.\<close>

fun truthy :: "jsval \<Rightarrow> bool" where
  "truthy Undefined = False"
| "truthy Null = False"
| "truthy (Bool b) = b"
| "truthy (Num n) = (n \<noteq> 0)"
| "truthy (Str s) = (s \<noteq> [])"
| "truthy (Obj kvs) = True"

text \<open>\<open>body.f\<close>: the field's value, \<open>undefined\<close> when the key is absent.\<close>

definition get_field :: "body \<Rightarrow> string \<Rightarrow> jsval" where
  "get_field b f = (case b f of None \<Rightarrow> Undefined | Some v \<Rightarrow> v)"

text \<open>\<open>'f' in body\<close>: the key is present, whatever its value.\<close>

definition has_field :: "string \<Rightarrow> body \<Rightarrow> bool" where
  "has_field f b = (case b f of None \<Rightarrow> False | Some v \<Rightarrow> True)"

text \<open>\<open>obj.f\<close> on a response object of the hosted API.\<close>

fun js_prop :: "jsval \<Rightarrow> string \<Rightarrow> jsval" where
  "js_prop (Obj kvs) f = (case map_of kvs f of None \<Rightarrow> Undefined | Some v \<Rightarrow> v)"
| "js_prop v f = Undefined"

datatype SdkErrorCode =
    KMS_CHAIN_MISMATCH
  | FLOW_MISSING_PRIVATE_KEY
  | FLOW_MISSING_MNEMONIC

text \<open>
  Every \<open>throw\<close> and every rejected promise is a value of \<open>error\<close>: \<open>Error msg\<close> is
  \<open>new Error(msg)\<close>, \<open>TypeError\<close> a method call on \<open>undefined\<close>, \<open>External msg\<close> a
  rejection raised inside a collaborator (hosted API, chain access layer, vendor
  library), and the SDK's own typed errors carry either an error code or the cause they
  wrap.
\<close>

datatype error =
    Error string
  | TypeError
  | External string
  | XrpSdkError SdkErrorCode
  | FlowSdkError_code SdkErrorCode
  | FlowSdkError error

section \<open>Decimal literals and the vendor's arbitrary-precision numbers\<close>

definition is_digit :: "char \<Rightarrow> bool" where
  "is_digit c = (c \<in> set ''0123456789'')"

definition digit_val :: "char \<Rightarrow> int" where
  "digit_val c = of_char c - 48"

definition digits_val :: "string \<Rightarrow> int" where
  "digits_val ds = foldl (\<lambda>a c. 10 * a + digit_val c) 0 ds"

definition pow10 :: "int \<Rightarrow> rat" where
  "pow10 e = (if 0 \<le> e then 10 ^ nat e else 1 / 10 ^ nat (- e))"

text \<open>
  The exponent part \<open>e[+-]?\d+\<close> at the head of a string: the exponent and what follows
  it, or nothing when the string does not start with a complete exponent part.
\<close>

definition scan_exponent :: "string \<Rightarrow> (int \<times> string) option" where
  "scan_exponent s =
     (case s of
        [] \<Rightarrow> None
      | c # r \<Rightarrow>
          if c = CHR ''e'' \<or> c = CHR ''E'' then
            (let neg = (r \<noteq> [] \<and> hd r = CHR ''-'');
                 r' = (if r \<noteq> [] \<and> (hd r = CHR ''-'' \<or> hd r = CHR ''+'') then tl r else r);
                 ds = takeWhile is_digit r'
             in if ds = [] then None
                else Some ((if neg then - digits_val ds else digits_val ds),
                           dropWhile is_digit r'))
          else None)"

text \<open>
  The longest prefix of a string that is an unsigned decimal literal
  (\<open>\d+(\.\d*)?(e[+-]?\d+)?\<close> or \<open>\.\d+(e[+-]?\d+)?\<close>): its exact value and the rest of
  the string; \<open>None\<close> when no prefix is one.
\<close>

definition scan_decimal :: "string \<Rightarrow> (rat \<times> string) option" where
  "scan_decimal s =
     (let ip = takeWhile is_digit s;
          r1 = dropWhile is_digit s;
          dot = (r1 \<noteq> [] \<and> hd r1 = CHR ''.'');
          fp = (if dot then takeWhile is_digit (tl r1) else []);
          r2 = (if dot then dropWhile is_digit (tl r1) else r1)
      in if ip = [] \<and> fp = [] then None
         else (let m = of_int (digits_val (ip @ fp)) / 10 ^ length fp
               in case scan_exponent r2 of
                    None \<Rightarrow> Some (m, r2)
                  | Some (e, r3) \<Rightarrow> Some (m * pow10 e, r3)))"

text \<open>
  \<open>bignumber.js\<close> values: arbitrary-precision decimals, held exactly, or \<open>NaN\<close>.
  \<open>new BigNumber(s)\<close> on a string accepts decimal notation
  \<open>-?(\d+(\.\d*)?|\.\d+)(e[+-]?\d+)?\<close>. The library's other notations (a leading
  \<open>+\<close>, surrounding blanks, \<open>0x\<close>/\<open>0b\<close>/\<open>0o\<close> prefixes, \<open>Infinity\<close>) are not
  modelled: \<open>bn_of_string\<close> reads them as \<open>NaN\<close>, and no property below speaks
  about them.
\<close>

datatype BigNumber = BN_NaN | BN rat

definition bn_of_string :: "string \<Rightarrow> BigNumber" where
  "bn_of_string s =
     (let neg = (s \<noteq> [] \<and> hd s = CHR ''-'');
          u = (if neg then tl s else s)
      in case scan_decimal u of
           Some (v, []) \<Rightarrow> BN (if neg then - v else v)
         | _ \<Rightarrow> BN_NaN)"

fun bn_of_jsval :: "jsval \<Rightarrow> BigNumber" where
  "bn_of_jsval (Str s) = bn_of_string s"
| "bn_of_jsval (Num n) = BN (of_int n)"
| "bn_of_jsval v = BN_NaN"

fun multipliedBy :: "BigNumber \<Rightarrow> BigNumber \<Rightarrow> BigNumber" where
  "multipliedBy (BN x) (BN y) = BN (x * y)"
| "multipliedBy x y = BN_NaN"

definition bn_pow :: "BigNumber \<Rightarrow> nat \<Rightarrow> BigNumber" where
  "bn_pow x n = (case x of BN_NaN \<Rightarrow> BN_NaN | BN v \<Rightarrow> BN (v ^ n))"

definition hex_digit :: "int \<Rightarrow> char" where
  "hex_digit d = ''0123456789abcdef'' ! nat (d mod 16)"

text \<open>A non-negative integer in base 16, lower case, without leading zeros.\<close>

function hex_of_int :: "int \<Rightarrow> string" where
  "hex_of_int n =
     (if n < 16 then [hex_digit n] else hex_of_int (n div 16) @ [hex_digit (n mod 16)])"
  by pat_completeness auto
termination
  by (relation "measure nat") auto

declare hex_of_int.simps [simp del]

text \<open>Exactly \<open>k\<close> hexadecimal digits of \<open>n\<close>, most significant first.\<close>

fun hex_fixed :: "nat \<Rightarrow> int \<Rightarrow> string" where
  "hex_fixed 0 n = []"
| "hex_fixed (Suc k) n = hex_fixed k (n div 16) @ [hex_digit (n mod 16)]"

definition strip_trailing_zeros :: "string \<Rightarrow> string" where
  "strip_trailing_zeros s = rev (dropWhile (\<lambda>c. c = CHR ''0'') (rev s))"

text \<open>
  \<open>x.toString(16)\<close>: the value in base 16, with a fraction part when it is not an
  integer. The library rounds the fraction to \<open>DECIMAL_PLACES\<close> = 20 digits,
  \<open>ROUND_HALF_UP\<close> (its defaults), and drops trailing zeros. It never truncates to an
  integer.
\<close>

definition bn_toString16 :: "BigNumber \<Rightarrow> string" where
  "bn_toString16 x =
     (case x of
        BN_NaN \<Rightarrow> ''NaN''
      | BN v \<Rightarrow>
          (let n = \<lfloor>\<bar>v\<bar> * 16 ^ 20 + 1 / 2\<rfloor>;
               ip = n div 16 ^ 20;
               fp = n mod 16 ^ 20
           in (if v < 0 then ''-'' else []) @ hex_of_int ip @
              (if fp = 0 then [] else ''.'' @ strip_trailing_zeros (hex_fixed 20 fp))))"


section \<open>XRP: signing a pending KMS transaction\<close>

record PendingTransaction =
  chain :: string
  serializedTransaction :: string

definition Currency_XRP :: string where
  "Currency_XRP = ''XRP''"

text \<open>
  \<open>xrpKmsService.sign\<close>. The vendor call \<open>rippleAPI.sign(txJSON, secret)\<close> is a
  parameter: it returns the signed transaction or raises inside the vendor library.
\<close>

definition xrp_sign ::
  "(string \<Rightarrow> string \<Rightarrow> string + string) \<Rightarrow> PendingTransaction \<Rightarrow> string \<Rightarrow> error + string" where
  "xrp_sign rippleAPI_sign tx secret =
     (if chain tx \<noteq> Currency_XRP then Inl (XrpSdkError KMS_CHAIN_MISMATCH)
      else (case rippleAPI_sign (serializedTransaction tx) secret of
              Inl msg \<Rightarrow> Inl (External msg)
            | Inr signedTransaction \<Rightarrow> Inr signedTransaction))"

section \<open>EVM custodial wallets: preparing and sending\<close>

datatype abi = CustodialFullTokenWallet_abi | CUSTODIAL_PROXY_ABI

text \<open>
  Every call that leaves the module is recorded: the hosted API's KMS endpoints
  (\<open>GasPumpService\<close>), its fee-covered batch generation
  (\<open>ApiServices.blockchain.gasPump\<close>), the local builders of \<open>evmBasedCustodial\<close> and
  \<open>evmBasedSmartContract\<close> (which read the chain and sign with the body's key), the
  decimals lookup, and the broadcast function the module was constructed with.
\<close>

datatype call =
    GasPumpService_transferCustodialWallet body
  | GasPumpService_transferCustodialWalletBatch body
  | GasPumpService_approveTransferCustodialWallet body
  | GasPumpService_generateCustodialWalletBatch body
  | ApiServices_generateCustodialWalletBatch body
  | PrepareTransferFromCustodialWalletAbstract body "bool option" "string option"
  | PrepareBatchTransferFromCustodialWalletAbstract body "bool option" "string option"
  | PrepareCustodialWalletBatchAbstract body "bool option"
  | Decimals jsval "string option"
  | HelperPrepareSCCall body string "jsval list" "string option" abi
  | BroadcastFunction string

text \<open>
  The collaborators themselves are not part of this module; a \<open>world\<close> gives the
  outcome of each of their calls. Arguments that never vary (the \<open>web3\<close> client, the
  decimals lookup and write-method invocation handed to the abstract builders, the
  native coin's 18 decimals) are left to the collaborator.
\<close>

record world =
  gasPump_transferCustodialWallet :: "body \<Rightarrow> error + jsval"
  gasPump_transferCustodialWalletBatch :: "body \<Rightarrow> error + jsval"
  gasPump_approveTransferCustodialWallet :: "body \<Rightarrow> error + jsval"
  gasPump_generateCustodialWalletBatch :: "body \<Rightarrow> error + jsval"
  api_generateCustodialWalletBatch :: "body \<Rightarrow> error + jsval"
  prepareTransferFromCustodialWalletAbstract ::
    "body \<Rightarrow> bool option \<Rightarrow> string option \<Rightarrow> error + string"
  prepareBatchTransferFromCustodialWalletAbstract ::
    "body \<Rightarrow> bool option \<Rightarrow> string option \<Rightarrow> error + string"
  prepareCustodialWalletBatchAbstract ::
    "body \<Rightarrow> bool option \<Rightarrow> error + (jsval list \<times> string \<times> body)"
  decimals :: "jsval \<Rightarrow> string option \<Rightarrow> error + nat"
  helperPrepareSCCall ::
    "body \<Rightarrow> string \<Rightarrow> jsval list \<Rightarrow> string option \<Rightarrow> abi \<Rightarrow> error + string"
  broadcastFunction :: "string \<Rightarrow> error + jsval"

text \<open>An asynchronous function: the calls it made, in order, and how it settled.\<close>

type_synonym 'a io = "call list \<times> (error + 'a)"

definition transferFromCustodialWallet ::
  "world \<Rightarrow> body \<Rightarrow> bool option \<Rightarrow> string option \<Rightarrow> string io" where
  "transferFromCustodialWallet w b testnet provider =
     ([PrepareTransferFromCustodialWalletAbstract b testnet provider],
      prepareTransferFromCustodialWalletAbstract w b testnet provider)"

definition batchTransferFromCustodialWallet ::
  "world \<Rightarrow> body \<Rightarrow> bool option \<Rightarrow> string option \<Rightarrow> string io" where
  "batchTransferFromCustodialWallet w b testnet provider =
     ([PrepareBatchTransferFromCustodialWalletAbstract b testnet provider],
      prepareBatchTransferFromCustodialWalletAbstract w b testnet provider)"

definition generateCustodialBatch :: "world \<Rightarrow> body \<Rightarrow> jsval io" where
  "generateCustodialBatch w b =
     ([ApiServices_generateCustodialWalletBatch b],
      (case api_generateCustodialWalletBatch w b of
         Inl e \<Rightarrow> Inl e
       | Inr request \<Rightarrow>
           if truthy request then Inr (js_prop request ''txId'')
           else Inl (Error ''Unable to generate custodial wallet address.'')))"

definition custodialWalletBatch ::
  "world \<Rightarrow> body \<Rightarrow> bool option \<Rightarrow> string option \<Rightarrow> string io" where
  "custodialWalletBatch w b testnet provider =
     (case prepareCustodialWalletBatchAbstract w b testnet of
        Inl e \<Rightarrow> ([PrepareCustodialWalletBatchAbstract b testnet], Inl e)
      | Inr (params, methodName, bodyWithContractAddress) \<Rightarrow>
          ([PrepareCustodialWalletBatchAbstract b testnet,
            HelperPrepareSCCall bodyWithContractAddress methodName params provider
              CUSTODIAL_PROXY_ABI],
           helperPrepareSCCall w bodyWithContractAddress methodName params provider
             CUSTODIAL_PROXY_ABI))"

text \<open>
  \<open>args.broadcastFunction({ txData: await build })\<close>: the argument is awaited first,
  so a build that raises never reaches the broadcast function.
\<close>

definition broadcast_built :: "world \<Rightarrow> string io \<Rightarrow> jsval io" where
  "broadcast_built w built =
     (case built of
        (cs, Inl e) \<Rightarrow> (cs, Inl e)
      | (cs, Inr txData) \<Rightarrow> (cs @ [BroadcastFunction txData], broadcastFunction w txData))"

definition send_transferFromCustodialWallet ::
  "world \<Rightarrow> body \<Rightarrow> string option \<Rightarrow> bool option \<Rightarrow> jsval io" where
  "send_transferFromCustodialWallet w b provider testnet =
     (if truthy (get_field b ''signatureId'')
      then ([GasPumpService_transferCustodialWallet b], gasPump_transferCustodialWallet w b)
      else broadcast_built w (transferFromCustodialWallet w b testnet provider))"

definition send_batchTransferFromCustodialWallet ::
  "world \<Rightarrow> body \<Rightarrow> string option \<Rightarrow> bool option \<Rightarrow> jsval io" where
  "send_batchTransferFromCustodialWallet w b provider testnet =
     (if truthy (get_field b ''signatureId'')
      then ([GasPumpService_transferCustodialWalletBatch b],
            gasPump_transferCustodialWalletBatch w b)
      else broadcast_built w (batchTransferFromCustodialWallet w b testnet provider))"

definition send_custodialWalletBatch ::
  "world \<Rightarrow> body \<Rightarrow> string option \<Rightarrow> bool option \<Rightarrow> jsval io" where
  "send_custodialWalletBatch w b provider testnet =
     (if has_field ''feesCovered'' b then generateCustodialBatch w b
      else if has_field ''signatureId'' b
      then ([GasPumpService_generateCustodialWalletBatch b],
            gasPump_generateCustodialWalletBatch w b)
      else broadcast_built w (custodialWalletBatch w b testnet provider))"

text \<open>\<open>String.prototype.trim\<close> on ASCII text: blanks, tabs and line ends go, at both ends.\<close>

definition is_space :: "char \<Rightarrow> bool" where
  "is_space c = (c \<in> set [CHR '' '', CHR 0x09, CHR 0x0A, CHR 0x0B, CHR 0x0C, CHR 0x0D])"

definition js_trim :: "string \<Rightarrow> string" where
  "js_trim s = rev (dropWhile is_space (rev (dropWhile is_space s)))"

text \<open>\<open>new BigNumber(v || 0)\<close>.\<close>

definition bn_or_zero :: "jsval \<Rightarrow> BigNumber" where
  "bn_or_zero v = (if truthy v then bn_of_jsval v else BN 0)"

text \<open>
  The fourth parameter of the \<open>approve\<close> call:
  \<open>`0x${new BigNumber(body.amount || 0).multipliedBy(new BigNumber(10).pow(decimals)).toString(16)}`\<close>.
\<close>

definition approve_amount_param :: "body \<Rightarrow> nat \<Rightarrow> string" where
  "approve_amount_param b d =
     ''0x'' @ bn_toString16 (multipliedBy (bn_or_zero (get_field b ''amount'')) (bn_pow (BN 10) d))"

definition approve_tokenId_param :: "body \<Rightarrow> string" where
  "approve_tokenId_param b = ''0x'' @ bn_toString16 (bn_or_zero (get_field b ''tokenId''))"

text \<open>
  \<open>approveFromCustodialWallet\<close> mutates its argument (\<open>delete body.amount\<close>), so the
  model returns the body as the caller sees it afterwards, next to the calls made and the
  outcome. The statements run in the source's order: the decimals lookup (only for
  contract type 0), the parameter list (\<open>body.tokenAddress!.trim()\<close> raises a
  \<open>TypeError\<close> when the address is not a string), the deletion, and the call of
  \<open>helperPrepareSCCall\<close> on a copy of the body extended by \<open>contractAddress\<close>.
\<close>

definition approveFromCustodialWallet ::
  "world \<Rightarrow> body \<Rightarrow> string option \<Rightarrow> call list \<times> body \<times> (error + string)" where
  "approveFromCustodialWallet w b provider =
     (let fungible = (b ''contractType'' = Some (Num 0));
          cs = (if fungible then [Decimals (get_field b ''tokenAddress'') provider] else [])
      in case (if fungible then decimals w (get_field b ''tokenAddress'') provider else Inr 0) of
           Inl e \<Rightarrow> (cs, b, Inl e)
         | Inr d \<Rightarrow>
             (case get_field b ''tokenAddress'' of
                Str a \<Rightarrow>
                  (let params = [Str (js_trim a), get_field b ''contractType'',
                                 get_field b ''spender'', Str (approve_amount_param b d),
                                 Str (approve_tokenId_param b)];
                       b' = b(''amount'' := None);
                       arg = b'(''contractAddress'' \<mapsto> get_field b' ''custodialAddress'')
                   in (cs @ [HelperPrepareSCCall arg ''approve'' params provider
                               CustodialFullTokenWallet_abi],
                       b',
                       helperPrepareSCCall w arg ''approve'' params provider
                         CustodialFullTokenWallet_abi))
              | _ \<Rightarrow> (cs, b, Inl TypeError)))"

definition send_approveFromCustodialWallet ::
  "world \<Rightarrow> body \<Rightarrow> string option \<Rightarrow> call list \<times> body \<times> (error + jsval)" where
  "send_approveFromCustodialWallet w b provider =
     (if truthy (get_field b ''signatureId'')
      then ([GasPumpService_approveTransferCustodialWallet b], b,
            gasPump_approveTransferCustodialWallet w b)
      else (case approveFromCustodialWallet w b provider of
              (cs, b', built) \<Rightarrow>
                (case broadcast_built w (cs, built) of (cs', r) \<Rightarrow> (cs', b', r))))"


text \<open>The three dispatch paths of a send, and the path each recorded call belongs to.\<close>

datatype path = HostedApi | Kms | LocalBuild

fun path_of :: "call \<Rightarrow> path" where
  "path_of (ApiServices_generateCustodialWalletBatch b) = HostedApi"
| "path_of (GasPumpService_transferCustodialWallet b) = Kms"
| "path_of (GasPumpService_transferCustodialWalletBatch b) = Kms"
| "path_of (GasPumpService_approveTransferCustodialWallet b) = Kms"
| "path_of (GasPumpService_generateCustodialWalletBatch b) = Kms"
| "path_of c = LocalBuild"

subsection \<open>Example inputs\<close>

text \<open>
  A world in which every collaborator answers: the hosted API with a signature or
  transaction id, the token contract with 6 decimals, the builders with raw transaction
  data. It is the concrete input of the examples below.
\<close>

definition sample_world :: world where
  "sample_world =
     \<lparr> gasPump_transferCustodialWallet = (\<lambda>b. Inr (Obj [(''signatureId'', Str ''sig-transfer'')])),
       gasPump_transferCustodialWalletBatch = (\<lambda>b. Inr (Obj [(''signatureId'', Str ''sig-batch'')])),
       gasPump_approveTransferCustodialWallet = (\<lambda>b. Inr (Obj [(''signatureId'', Str ''sig-approve'')])),
       gasPump_generateCustodialWalletBatch = (\<lambda>b. Inr (Obj [(''signatureId'', Str ''sig-generate'')])),
       api_generateCustodialWalletBatch = (\<lambda>b. Inr (Obj [(''txId'', Str ''0xaa'')])),
       prepareTransferFromCustodialWalletAbstract = (\<lambda>b t p. Inr ''0xf801''),
       prepareBatchTransferFromCustodialWalletAbstract = (\<lambda>b t p. Inr ''0xf802''),
       prepareCustodialWalletBatchAbstract =
         (\<lambda>b t. Inr ([Str ''0x00'', Num 3], ''cloneNewWallet'',
                        b(''contractAddress'' \<mapsto> Str ''0xfactory''))),
       decimals = (\<lambda>a p. Inr 6),
       helperPrepareSCCall = (\<lambda>b m ps p a. Inr ''0xf803''),
       broadcastFunction = (\<lambda>tx. Inr (Obj [(''txId'', Str ''0xbb'')])) \<rparr>"


text \<open>Whether a recorded call is the call of \<open>helperPrepareSCCall\<close>.\<close>

fun is_HelperPrepareSCCall :: "call \<Rightarrow> bool" where
  "is_HelperPrepareSCCall (HelperPrepareSCCall b m ps p a) = True"
| "is_HelperPrepareSCCall c = False"

text \<open>
  Approve requests used as examples: a fungible-token approval of 1.5 tokens, one of
  0.0000015 tokens (less than the smallest unit of a token with 6 decimals would allow),
  and the approval of a non-fungible token.
\<close>

definition approve_fungible :: "string \<Rightarrow> body" where
  "approve_fungible amount =
     [''custodialAddress'' \<mapsto> Str ''0xc0ffee'', ''tokenAddress'' \<mapsto> Str '' 0xa0b8 '',
      ''contractType'' \<mapsto> Num 0, ''spender'' \<mapsto> Str ''0x5e'', ''amount'' \<mapsto> Str amount]"



section \<open>JavaScript numbers: \<open>parseFloat\<close> and \<open>toFixed\<close>\<close>

text \<open>
  A JavaScript number is an IEEE 754 double: \<open>NaN\<close>, an infinity, or a finite value,
  held here as the rational it denotes (the two zeros are not told apart; \<open>toFixed\<close>
  prints both alike).
\<close>

datatype jsnumber = NaN | Infinity bool | Finite rat

definition pow2 :: "int \<Rightarrow> rat" where
  "pow2 e = (if 0 \<le> e then 2 ^ nat e else 1 / 2 ^ nat (- e))"

text \<open>The number of binary digits of a positive integer.\<close>

function bitlen :: "int \<Rightarrow> int" where
  "bitlen n = (if n \<le> 0 then 0 else 1 + bitlen (n div 2))"
  by pat_completeness auto
termination
  by (relation "measure nat") auto

declare bitlen.simps [simp del]

text \<open>For \<open>x > 0\<close>, the exponent \<open>e\<close> with \<open>2^e \<le> x < 2^(e+1)\<close>.\<close>

definition floor_log2 :: "rat \<Rightarrow> int" where
  "floor_log2 x =
     (case quotient_of x of
        (p, q) \<Rightarrow> (let e = bitlen p - bitlen q in if pow2 e \<le> x then e else e - 1))"

definition round_half_even :: "rat \<Rightarrow> int" where
  "round_half_even y =
     (let f = \<lfloor>y\<rfloor>; d = y - of_int f
      in if d < 1 / 2 then f else if 1 / 2 < d then f + 1 else if even f then f else f + 1)"

text \<open>
  Rounding a real to the nearest double, ties to even: 53 significant bits above the
  smallest normal exponent \<open>-1022\<close>, a fixed spacing of \<open>2^-1074\<close> below it, and an
  infinity once the rounded value \<open>m * 2^(e - 52)\<close> reaches \<open>2^1024\<close>, that is for
  \<open>e \<ge> 1024\<close>, or \<open>e = 1023\<close> with the significand rounded up to \<open>2^53\<close>.
\<close>

definition to_double :: "rat \<Rightarrow> jsnumber" where
  "to_double x =
     (if x = 0 then Finite 0
      else (let a = \<bar>x\<bar>;
                e = max (floor_log2 a) (- 1022);
                ulp = pow2 (e - 52);
                m = round_half_even (a / ulp)
            in if 1024 \<le> e \<or> (e = 1023 \<and> m = 2 ^ 53) then Infinity (x < 0)
               else Finite (if x < 0 then - (of_int m * ulp) else of_int m * ulp)))"

text \<open>
  The longest prefix of a string, after leading blanks, that is a \<open>StrDecimalLiteral\<close>
  (an optional sign, then \<open>Infinity\<close> or an unsigned decimal literal), with the
  mathematical value it denotes.
\<close>

datatype literal = NotNumeric | InfinityLiteral bool | Decimal rat

definition StrDecimalLiteral :: "string \<Rightarrow> literal" where
  "StrDecimalLiteral s =
     (let t = dropWhile is_space s;
          neg = (t \<noteq> [] \<and> hd t = CHR ''-'');
          u = (if t \<noteq> [] \<and> (hd t = CHR ''-'' \<or> hd t = CHR ''+'') then tl t else t)
      in if take 8 u = ''Infinity'' then InfinityLiteral neg
         else (case scan_decimal u of
                 None \<Rightarrow> NotNumeric
               | Some (v, rest) \<Rightarrow> Decimal (if neg then - v else v)))"

definition parseFloat :: "string \<Rightarrow> jsnumber" where
  "parseFloat s =
     (case StrDecimalLiteral s of
        NotNumeric \<Rightarrow> NaN
      | InfinityLiteral neg \<Rightarrow> Infinity neg
      | Decimal v \<Rightarrow> to_double v)"

definition dec_digit :: "int \<Rightarrow> char" where
  "dec_digit d = ''0123456789'' ! nat (d mod 10)"

text \<open>A non-negative integer in base 10, without leading zeros.\<close>

function dec_of_int :: "int \<Rightarrow> string" where
  "dec_of_int n =
     (if n < 10 then [dec_digit n] else dec_of_int (n div 10) @ [dec_digit (n mod 10)])"
  by pat_completeness auto
termination
  by (relation "measure nat") auto

declare dec_of_int.simps [simp del]

text \<open>
  The last steps of \<open>toFixed\<close>: digits shorter than \<open>f + 1\<close> are padded with zeros
  in front, and the point goes before the last \<open>f\<close> digits.
\<close>

definition insert_point :: "nat \<Rightarrow> string \<Rightarrow> string" where
  "insert_point f m =
     (let m' = (if length m \<le> f then replicate (f + 1 - length m) (CHR ''0'') @ m else m);
          k = length m'
      in take (k - f) m' @ (if f \<noteq> 0 then ''.'' @ drop (k - f) m' else []))"

text \<open>
  \<open>Number.prototype.toFixed(f)\<close>, as ECMAScript defines it: a value that is not finite
  prints as its name; otherwise the sign is split off, \<open>n\<close> is the integer nearest to
  \<open>x * 10^f\<close> (the larger one on a tie), and its digits get the point. From \<open>10^21\<close>
  on the result is the engine's \<open>Number::toString\<close> (exponent notation), which is a
  parameter here.
\<close>

definition toFixed :: "(rat \<Rightarrow> string) \<Rightarrow> nat \<Rightarrow> jsnumber \<Rightarrow> string" where
  "toFixed Number_toString f x =
     (case x of
        NaN \<Rightarrow> ''NaN''
      | Infinity neg \<Rightarrow> (if neg then ''-Infinity'' else ''Infinity'')
      | Finite v \<Rightarrow>
          (let a = \<bar>v\<bar>;
               s = (if v < 0 then ''-'' else [])
           in if 10 ^ 21 \<le> a then s @ Number_toString a
              else s @ insert_point f (dec_of_int \<lfloor>a * 10 ^ f + 1 / 2\<rfloor>)))"

section \<open>Flow: signing, key resolution, transfers and the broadcaster\<close>

record flow_addresses =
  FlowToken :: string
  FungibleToken :: string
  FUSD :: string
  TatumMultiNFT :: string

definition FLOW_TESTNET_ADDRESSES :: flow_addresses where
  "FLOW_TESTNET_ADDRESSES =
     \<lparr> FlowToken = ''0x7e60df042a9c0868'', FungibleToken = ''0x9a0766d93b6608b7'',
       FUSD = ''0xe223d8a629e49c68'', TatumMultiNFT = ''0x87fe4ebd0cddde06'' \<rparr>"

definition FLOW_MAINNET_ADDRESSES :: flow_addresses where
  "FLOW_MAINNET_ADDRESSES =
     \<lparr> FlowToken = ''0x1654653399040a61'', FungibleToken = ''0xf233dcee88fe0abe'',
       FUSD = ''0x3c5959b568896393'', TatumMultiNFT = ''0x354e6721564ccd2c'' \<rparr>"

definition Blockchain_FLOW :: string where
  "Blockchain_FLOW = ''FLOW''"

subsection \<open>The signer\<close>

text \<open>
  The vendor primitives of \<open>sign\<close>: the SHA3-256 digest of a byte string, and
  \<open>new elliptic.ec('secp256k1').keyFromPrivate(pk).sign(digest)\<close>, which yields the pair
  \<open>(r, s)\<close>. Bytes are integers from 0 to 255.
\<close>

record crypto =
  sha3_256 :: "int list \<Rightarrow> int list"
  secp256k1_sign :: "string \<Rightarrow> int list \<Rightarrow> int \<times> int"

text \<open>The \<open>len\<close> low-order bytes of \<open>n\<close>, most significant first.\<close>

fun be_bytes :: "nat \<Rightarrow> int \<Rightarrow> int list" where
  "be_bytes 0 n = []"
| "be_bytes (Suc len) n = be_bytes len (n div 256) @ [n mod 256]"

text \<open>
  \<open>n.toArrayLike(Buffer, 'be', len)\<close> on a non-negative big integer: the library
  asserts that the number fits, and pads with zero bytes in front.
\<close>

definition toArrayLike_be :: "nat \<Rightarrow> int \<Rightarrow> error + int list" where
  "toArrayLike_be len n =
     (if n < 256 ^ len then Inr (be_bytes len n)
      else Inl (Error ''byte array longer than desired length''))"

text \<open>\<open>buffer.toString('hex')\<close>: two lower-case digits per byte.\<close>

definition toString_hex :: "int list \<Rightarrow> string" where
  "toString_hex bs = concat (map (\<lambda>b. [hex_digit (b div 16), hex_digit (b mod 16)]) bs)"

definition sign :: "crypto \<Rightarrow> string \<Rightarrow> int list \<Rightarrow> error + string" where
  "sign c pk msg =
     (case secp256k1_sign c pk (sha3_256 c msg) of
        (r, s) \<Rightarrow>
          (case toArrayLike_be 32 r of
             Inl e \<Rightarrow> Inl e
           | Inr rb \<Rightarrow>
               (case toArrayLike_be 32 s of
                  Inl e \<Rightarrow> Inl e
                | Inr sb \<Rightarrow> Inr (toString_hex (rb @ sb)))))"

text \<open>Reading a hexadecimal string back as a number, to state what \<open>sign\<close> encodes.\<close>

definition hex_digit_val :: "char \<Rightarrow> int" where
  "hex_digit_val c =
     (if is_digit c then of_char c - 48
      else if c \<in> set ''abcdef'' then of_char c - 87
      else of_char c - 55)"

definition hex_val :: "string \<Rightarrow> int" where
  "hex_val hs = foldl (\<lambda>a c. 16 * a + hex_digit_val c) 0 hs"

subsection \<open>Key resolution\<close>

record FlowMnemonicOrPrivateKeyOrSignatureId =
  mnemonic :: "string option"
  index :: "int option"
  privateKey :: "string option"

text \<open>
  \<open>getPrivateKey\<close>. The tests are JavaScript truthiness: an absent or empty string and
  an absent or zero \<open>index\<close> are falsy. The index is a derivation index, an integer.
  Deriving a key is the wallet's \<open>generatePrivateKeyFromMnemonic\<close>, a parameter.
\<close>

definition getPrivateKey ::
  "(string \<Rightarrow> int \<Rightarrow> error + string) \<Rightarrow> 'a FlowMnemonicOrPrivateKeyOrSignatureId_scheme
     \<Rightarrow> error + string" where
  "getPrivateKey generatePrivateKeyFromMnemonic body =
     (let derived =
            (case (mnemonic body, index body) of
               (Some m, Some i) \<Rightarrow>
                 if m \<noteq> [] \<and> i \<noteq> 0 \<and> 0 \<le> i then generatePrivateKeyFromMnemonic m i
                 else Inl (FlowSdkError_code FLOW_MISSING_MNEMONIC)
             | _ \<Rightarrow> Inl (FlowSdkError_code FLOW_MISSING_MNEMONIC))
      in case privateKey body of
           Some pk \<Rightarrow> if pk \<noteq> [] then Inr pk else derived
         | None \<Rightarrow> derived)"

text \<open>
  The reference definition of key resolution, in the specification's words: the private
  key if present; else, if a mnemonic is present and \<open>index >= 0\<close>, the key derived from
  mnemonic and index; else the missing-key-material failure.
\<close>

definition resolve_reference ::
  "(string \<Rightarrow> int \<Rightarrow> error + string) \<Rightarrow> 'a FlowMnemonicOrPrivateKeyOrSignatureId_scheme
     \<Rightarrow> error + string" where
  "resolve_reference derive body =
     (case privateKey body of
        Some pk \<Rightarrow> Inr pk
      | None \<Rightarrow>
          (case (mnemonic body, index body) of
             (Some m, Some i) \<Rightarrow>
               if 0 \<le> i then derive m i else Inl (FlowSdkError_code FLOW_MISSING_MNEMONIC)
           | _ \<Rightarrow> Inl (FlowSdkError_code FLOW_MISSING_MNEMONIC)))"

subsection \<open>Transactions and signers\<close>

record FlowArgs =
  arg_value :: string
  arg_type :: string

text \<open>
  The Cadence script of a transfer comes from \<open>txTemplates.prepareTransferTxTemplate\<close>;
  the model keeps the arguments it was asked for.
\<close>

datatype flow_code = PrepareTransferTxTemplate bool string string string

datatype signer =
    GetSigner string string
  | ApiSigner bool string
  | CustomSigner string

record signer_handle =
  handle_signer :: signer
  handle_keyHash :: "string option"

datatype party = Signer signer | Handle signer_handle

record Transaction =
  code :: flow_code
  args :: "FlowArgs list"
  proposer :: party
  authorizations :: "signer list"
  payer :: party
  keyHash :: "string option"

record TransactionResult =
  result_id :: string
  events :: "jsval list"

record TransferFlow = FlowMnemonicOrPrivateKeyOrSignatureId +
  account :: string
  currency :: string
  to :: string
  amount :: string

text \<open>\<open>process.env\<close>, the process-wide state the proposer key is staged in.\<close>

type_synonym env = "string \<rightharpoonup> string"

text \<open>
  The collaborators of the Flow service. \<open>fcl_send\<close> is \<open>fcl.send\<close> on the access node
  of the chosen network: it resolves the signers, and the API signer of the proposer
  writes its key id into \<open>process.env\<close> under the key hash, so the call also yields the
  environment it leaves behind; its result is the response's transaction id.
  \<open>onceSealed\<close> yields the sealed transaction's error message (empty when there is none)
  and events. \<open>flow_broadcast\<close> is \<open>flowSdkBlockchain.broadcast(txId, undefined, proposalKey)\<close>.
\<close>

record flow_world =
  generatePrivateKeyFromMnemonic :: "string \<Rightarrow> int \<Rightarrow> error + string"
  Date_now :: int
  Number_toString :: "rat \<Rightarrow> string"
  fcl_send :: "string \<Rightarrow> Transaction \<Rightarrow> env \<Rightarrow> (error + string) \<times> env"
  onceSealed :: "string \<Rightarrow> error + (string \<times> jsval list)"
  flow_broadcast :: "string \<Rightarrow> int option \<Rightarrow> error + unit"

definition getApiSigner :: "int \<Rightarrow> bool \<Rightarrow> signer_handle" where
  "getApiSigner now isPayer =
     \<lparr> handle_signer = ApiSigner isPayer (''FLOW_PROPOSAL_KEY_'' @ dec_of_int now),
       handle_keyHash = Some (''FLOW_PROPOSAL_KEY_'' @ dec_of_int now) \<rparr>"

definition networkUrl :: "bool \<Rightarrow> string" where
  "networkUrl testnet =
     (if testnet then ''https://access-testnet.onflow.org''
      else ''https://access-mainnet-beta.onflow.org'')"

text \<open>
  \<open>parseInt(s)\<close> without a radix: leading blanks and a sign are skipped, a \<open>0x\<close> prefix
  selects base 16, and the longest run of digits is read; \<open>None\<close> is \<open>NaN\<close>.
\<close>

definition is_hex_digit :: "char \<Rightarrow> bool" where
  "is_hex_digit c = (c \<in> set ''0123456789abcdefABCDEF'')"

definition parseInt :: "string \<Rightarrow> int option" where
  "parseInt s =
     (let t = dropWhile is_space s;
          neg = (t \<noteq> [] \<and> hd t = CHR ''-'');
          u = (if t \<noteq> [] \<and> (hd t = CHR ''-'' \<or> hd t = CHR ''+'') then tl t else t);
          hex = (take 2 u = ''0x'' \<or> take 2 u = ''0X'');
          ds = (if hex then takeWhile is_hex_digit (drop 2 u) else takeWhile is_digit u);
          v = (if hex then hex_val ds else digits_val ds)
      in if ds = [] then None else Some (if neg then - v else v))"

text \<open>\<open>proposalKey(keyHash)\<close> for a truthy key hash: \<open>parseInt(process.env[keyHash] || '0')\<close>.\<close>

definition proposalKey :: "env \<Rightarrow> string \<Rightarrow> int option" where
  "proposalKey env kh =
     parseInt (case env kh of None \<Rightarrow> ''0'' | Some v \<Rightarrow> if v = [] then ''0'' else v)"

subsection \<open>The broadcaster\<close>

text \<open>
  \<open>_sendTransaction\<close>, with \<open>process.env\<close> passed in and returned. When \<open>fcl.send\<close>
  raises, the \<open>catch\<close> block releases the proposal key at the API and then deletes the
  entry, inside a \<open>try\<close> of its own. Otherwise the \<open>finally\<close> block after the
  confirmation does the same two steps; an error raised inside \<open>finally\<close> replaces the
  outcome of the \<open>try\<close>. In both blocks the deletion is the statement after the awaited
  API call.
\<close>

definition private_sendTransaction ::
  "flow_world \<Rightarrow> bool \<Rightarrow> Transaction \<Rightarrow> env \<Rightarrow> (error + TransactionResult) \<times> env" where
  "private_sendTransaction w testnet tx env =
     (let staged = (case keyHash tx of None \<Rightarrow> None | Some kh \<Rightarrow> if kh = [] then None else Some kh)
      in case fcl_send w (networkUrl testnet) tx env of
           (Inl e, env1) \<Rightarrow>
             (case staged of
                None \<Rightarrow> (Inl (FlowSdkError e), env1)
              | Some kh \<Rightarrow>
                  (case flow_broadcast w [] (proposalKey env1 kh) of
                     Inl e2 \<Rightarrow> (Inl (FlowSdkError e2), env1)
                   | Inr u \<Rightarrow> (Inl (FlowSdkError e), env1(kh := None))))
         | (Inr transactionId, env1) \<Rightarrow>
             (let outcome =
                    (case onceSealed w transactionId of
                       Inl e \<Rightarrow> Inl (FlowSdkError e)
                     | Inr (err, evs) \<Rightarrow>
                         if err \<noteq> [] then Inl (FlowSdkError (FlowSdkError (External err)))
                         else Inr \<lparr> result_id = transactionId, events = evs \<rparr>)
              in case staged of
                   None \<Rightarrow> (outcome, env1)
                 | Some kh \<Rightarrow>
                     (case flow_broadcast w transactionId (proposalKey env1 kh) of
                        Inl e2 \<Rightarrow> (Inl e2, env1)
                      | Inr u \<Rightarrow> (outcome, env1(kh := None)))))"

subsection \<open>Transfers\<close>

text \<open>
  \<open>sendTransaction\<close> in two steps: everything it does before it calls
  \<open>_sendTransaction\<close> (the transaction it hands over, or the error it raises first), and
  the call itself. Optional \<open>proposer\<close> and \<open>payer\<close> callbacks return a handle of their
  own.
\<close>

definition sendTransaction_tx ::
  "flow_world \<Rightarrow> bool \<Rightarrow> TransferFlow \<Rightarrow> (bool \<Rightarrow> signer_handle) option
     \<Rightarrow> (bool \<Rightarrow> signer_handle) option \<Rightarrow> error + Transaction" where
  "sendTransaction_tx w testnet body proposer_fn payer_fn =
     (let tokenAddress =
            (if currency body = Blockchain_FLOW
             then (if testnet then FlowToken FLOW_TESTNET_ADDRESSES
                   else FlowToken FLOW_MAINNET_ADDRESSES)
             else (if testnet then FUSD FLOW_TESTNET_ADDRESSES else FUSD FLOW_MAINNET_ADDRESSES));
          tokenName = (if currency body = Blockchain_FLOW then ''FlowToken'' else ''FUSD'');
          tokenStorage = (if currency body = Blockchain_FLOW then ''flowToken'' else ''fusd'');
          code = PrepareTransferTxTemplate testnet tokenAddress tokenName tokenStorage;
          args = [\<lparr> arg_value = toFixed (Number_toString w) 8 (parseFloat (amount body)),
                     arg_type = ''UFix64'' \<rparr>,
                  \<lparr> arg_value = to body, arg_type = ''Address'' \<rparr>]
      in case getPrivateKey (generatePrivateKeyFromMnemonic w) body of
           Inl e \<Rightarrow> Inl e
         | Inr pk \<Rightarrow>
             if pk = [] then Inl (FlowSdkError_code FLOW_MISSING_PRIVATE_KEY)
             else (let h = (case proposer_fn of
                              Some f \<Rightarrow> f False
                            | None \<Rightarrow> getApiSigner (Date_now w) False);
                       auth = GetSigner pk (account body)
                   in Inr \<lparr> code = code, args = args,
                            proposer = (case proposer_fn of
                                          Some f \<Rightarrow> Handle (f False)
                                        | None \<Rightarrow> Signer (handle_signer h)),
                            authorizations = [auth],
                            payer = (case payer_fn of
                                       Some f \<Rightarrow> Handle (f True)
                                     | None \<Rightarrow>
                                         Signer (handle_signer (getApiSigner (Date_now w) True))),
                            keyHash = handle_keyHash h \<rparr>))"

definition sendTransaction ::
  "flow_world \<Rightarrow> bool \<Rightarrow> TransferFlow \<Rightarrow> (bool \<Rightarrow> signer_handle) option
     \<Rightarrow> (bool \<Rightarrow> signer_handle) option \<Rightarrow> env \<Rightarrow> (error + string) \<times> env" where
  "sendTransaction w testnet body proposer_fn payer_fn env =
     (case sendTransaction_tx w testnet body proposer_fn payer_fn of
        Inl e \<Rightarrow> (Inl e, env)
      | Inr tx \<Rightarrow>
          (case private_sendTransaction w testnet tx env of
             (Inl e, env') \<Rightarrow> (Inl e, env')
           | (Inr result, env') \<Rightarrow> (Inr (result_id result), env')))"


text \<open>
  The decimal numeral of \<open>n / 10^f\<close>, for \<open>n \<ge> 0\<close>: the integer part, the point, and
  exactly \<open>f\<close> fraction digits.
\<close>

fun dec_fixed :: "nat \<Rightarrow> int \<Rightarrow> string" where
  "dec_fixed 0 n = []"
| "dec_fixed (Suc k) n = dec_fixed k (n div 10) @ [dec_digit (n mod 10)]"

definition decimal_numeral :: "nat \<Rightarrow> int \<Rightarrow> string" where
  "decimal_numeral f n = dec_of_int (n div 10 ^ f) @ ''.'' @ dec_fixed f (n mod 10 ^ f)"

subsection \<open>Example inputs\<close>

text \<open>
  A Flow world in which the access node accepts and seals every transaction and the API
  releases every proposal key; while resolving the proposer, \<open>fcl.send\<close> stages key id 3
  under the transaction's key hash. In the second world the API call that releases the
  proposal key is refused.
\<close>

definition sample_flow_world :: flow_world where
  "sample_flow_world =
     \<lparr> generatePrivateKeyFromMnemonic = (\<lambda>m i. Inr ''derived-key''),
       Date_now = 1700000000000,
       Number_toString = (\<lambda>x. ''1e+21''),
       fcl_send = (\<lambda>url tx env.
          (Inr ''tx-1'', (case keyHash tx of None \<Rightarrow> env | Some kh \<Rightarrow> env(kh \<mapsto> ''3'')))),
       onceSealed = (\<lambda>transactionId. Inr ([], [])),
       flow_broadcast = (\<lambda>txId key. Inr ()) \<rparr>"

definition release_refused_world :: flow_world where
  "release_refused_world =
     sample_flow_world \<lparr> flow_broadcast := (\<lambda>txId key. Inl (External ''503'')) \<rparr>"

definition flow_transfer :: "string \<Rightarrow> TransferFlow" where
  "flow_transfer a =
     \<lparr> mnemonic = None, index = None, privateKey = Some ''a1b2'',
       account = ''0x01'', currency = ''FLOW'', to = ''0xABC'', amount = a \<rparr>"

text \<open>The argument values of a built transaction, for stating examples.\<close>

definition built_arg_values :: "error + Transaction \<Rightarrow> error + string list" where
  "built_arg_values r = map_sum id (\<lambda>tx. map arg_value (args tx)) r"


text \<open>
  Vendor primitives with fixed answers, for the example of \<open>sign\<close>: the signature
  \<open>(r, s) = (1, 2^255 + 7)\<close>.
\<close>

definition sample_crypto :: crypto where
  "sample_crypto =
     \<lparr> sha3_256 = (\<lambda>msg. replicate 32 0),
       secp256k1_sign = (\<lambda>pk digest. (1, 2 ^ 255 + 7)) \<rparr>"


section \<open>Properties\<close>

text \<open>
  C9. The XRP KMS sign operation raises the chain-mismatch error
  (\<open>KMS_CHAIN_MISMATCH\<close>) if and only if the pending transaction's chain is not XRP; when
  the chain is XRP its outcome is the vendor signing call's on the serialized transaction
  and the secret: the signed transaction that call produced (or the vendor's own failure,
  which is never the chain-mismatch error).
\<close>

theorem xrp_sign_chain_mismatch_iff:
  "(xrp_sign rippleAPI_sign tx secret = Inl (XrpSdkError KMS_CHAIN_MISMATCH))
     = (chain tx \<noteq> Currency_XRP)
   \<and> (if chain tx = Currency_XRP
      then xrp_sign rippleAPI_sign tx secret
             = map_sum External id (rippleAPI_sign (serializedTransaction tx) secret)
      else xrp_sign rippleAPI_sign tx secret = Inl (XrpSdkError KMS_CHAIN_MISMATCH))"
  by (simp add: xrp_sign_def split: sum.split)

text \<open>
  C1. A custodial-wallet-batch send takes exactly one of three paths, chosen by the
  presence of fields, \<open>feesCovered\<close> before \<open>signatureId\<close> before the local build. With
  \<open>feesCovered\<close> the only call made is the hosted API's batch generation; else with
  \<open>signatureId\<close> the only call made is the KMS endpoint of \<open>GasPumpService\<close>, whose
  outcome is returned; else the local builder runs, and the transaction it built is what
  the broadcast function receives (a build that raises ends the send before any
  broadcast). In every case all calls made belong to one and the same path.
\<close>

theorem send_custodialWalletBatch_dispatch:
  "(has_field ''feesCovered'' b \<longrightarrow>
      send_custodialWalletBatch w b provider testnet = generateCustodialBatch w b
      \<and> fst (send_custodialWalletBatch w b provider testnet)
          = [ApiServices_generateCustodialWalletBatch b])
   \<and> (\<not> has_field ''feesCovered'' b \<and> has_field ''signatureId'' b \<longrightarrow>
      send_custodialWalletBatch w b provider testnet
        = ([GasPumpService_generateCustodialWalletBatch b],
           gasPump_generateCustodialWalletBatch w b))
   \<and> (\<not> has_field ''feesCovered'' b \<and> \<not> has_field ''signatureId'' b \<longrightarrow>
      hd (fst (send_custodialWalletBatch w b provider testnet))
        = PrepareCustodialWalletBatchAbstract b testnet
      \<and> (case custodialWalletBatch w b testnet provider of
           (cs, Inl e) \<Rightarrow> send_custodialWalletBatch w b provider testnet = (cs, Inl e)
         | (cs, Inr txData) \<Rightarrow>
             send_custodialWalletBatch w b provider testnet
               = (cs @ [BroadcastFunction txData], broadcastFunction w txData)))
   \<and> path_of ` set (fst (send_custodialWalletBatch w b provider testnet))
       = {if has_field ''feesCovered'' b then HostedApi
          else if has_field ''signatureId'' b then Kms else LocalBuild}"
proof -
  have hosted: "has_field ''feesCovered'' b \<Longrightarrow>
      fst (send_custodialWalletBatch w b provider testnet)
        = [ApiServices_generateCustodialWalletBatch b]"
    by (simp add: send_custodialWalletBatch_def generateCustodialBatch_def)
  have kms: "\<not> has_field ''feesCovered'' b \<Longrightarrow> has_field ''signatureId'' b \<Longrightarrow>
      send_custodialWalletBatch w b provider testnet
        = ([GasPumpService_generateCustodialWalletBatch b],
           gasPump_generateCustodialWalletBatch w b)"
    by (simp add: send_custodialWalletBatch_def)
  have local: "\<not> has_field ''feesCovered'' b \<Longrightarrow> \<not> has_field ''signatureId'' b \<Longrightarrow>
      send_custodialWalletBatch w b provider testnet
        = broadcast_built w (custodialWalletBatch w b testnet provider)"
    by (simp add: send_custodialWalletBatch_def)
  have local_calls: "\<not> has_field ''feesCovered'' b \<Longrightarrow> \<not> has_field ''signatureId'' b \<Longrightarrow>
      hd (fst (send_custodialWalletBatch w b provider testnet))
        = PrepareCustodialWalletBatchAbstract b testnet
      \<and> path_of ` set (fst (send_custodialWalletBatch w b provider testnet)) = {LocalBuild}"
    by (auto simp: local broadcast_built_def custodialWalletBatch_def
          split: sum.splits prod.splits)
  have local_case: "\<not> has_field ''feesCovered'' b \<Longrightarrow> \<not> has_field ''signatureId'' b \<Longrightarrow>
      (case custodialWalletBatch w b testnet provider of
           (cs, Inl e) \<Rightarrow> send_custodialWalletBatch w b provider testnet = (cs, Inl e)
         | (cs, Inr txData) \<Rightarrow>
             send_custodialWalletBatch w b provider testnet
               = (cs @ [BroadcastFunction txData], broadcastFunction w txData))"
    by (simp add: local broadcast_built_def split: sum.splits prod.splits)
  show ?thesis
    using hosted kms local_calls local_case
    by (cases "has_field ''feesCovered'' b"; cases "has_field ''signatureId'' b")
       (simp_all add: send_custodialWalletBatch_def)
qed

theorem send_custodialWalletBatch_dispatch_witness:
  "send_custodialWalletBatch sample_world
      [''feesCovered'' \<mapsto> Bool True, ''signatureId'' \<mapsto> Str ''26d3883e''] None None
     = ([ApiServices_generateCustodialWalletBatch
           [''feesCovered'' \<mapsto> Bool True, ''signatureId'' \<mapsto> Str ''26d3883e'']],
        Inr (Str ''0xaa''))
   \<and> send_custodialWalletBatch sample_world [''signatureId'' \<mapsto> Str ''26d3883e''] None None
     = ([GasPumpService_generateCustodialWalletBatch [''signatureId'' \<mapsto> Str ''26d3883e'']],
        Inr (Obj [(''signatureId'', Str ''sig-generate'')]))
   \<and> send_custodialWalletBatch sample_world [''batchCount'' \<mapsto> Num 3] None None
     = ([PrepareCustodialWalletBatchAbstract [''batchCount'' \<mapsto> Num 3] None,
         HelperPrepareSCCall
           [''batchCount'' \<mapsto> Num 3, ''contractAddress'' \<mapsto> Str ''0xfactory'']
           ''cloneNewWallet'' [Str ''0x00'', Num 3] None CUSTODIAL_PROXY_ABI,
         BroadcastFunction ''0xf803''],
        Inr (Obj [(''txId'', Str ''0xbb'')]))"
  using send_custodialWalletBatch_dispatch
          [of "[''feesCovered'' \<mapsto> Bool True, ''signatureId'' \<mapsto> Str ''26d3883e'']"
              sample_world None None]
        send_custodialWalletBatch_dispatch
          [of "[''signatureId'' \<mapsto> Str ''26d3883e'']" sample_world None None]
        send_custodialWalletBatch_dispatch
          [of "[''batchCount'' \<mapsto> Num 3]" sample_world None None]
  by (simp add: has_field_def generateCustodialBatch_def custodialWalletBatch_def
        sample_world_def)

text \<open>
  C5. A custodial transfer, batch transfer or approve send whose \<open>signatureId\<close> is set
  (a non-empty string: the source tests \<open>if (body.signatureId)\<close>) makes exactly one
  call, the KMS endpoint of \<open>GasPumpService\<close> for that operation, and returns its
  outcome. No local builder runs (so nothing is prepared or signed locally), the
  broadcast function is not invoked, and the approve send leaves the body as it was.
\<close>

theorem send_with_signatureId_routes_to_kms:
  "truthy (get_field b ''signatureId'') \<Longrightarrow>
     send_transferFromCustodialWallet w b provider testnet
       = ([GasPumpService_transferCustodialWallet b], gasPump_transferCustodialWallet w b)
   \<and> send_batchTransferFromCustodialWallet w b provider testnet
       = ([GasPumpService_transferCustodialWalletBatch b],
          gasPump_transferCustodialWalletBatch w b)
   \<and> send_approveFromCustodialWallet w b provider
       = ([GasPumpService_approveTransferCustodialWallet b], b,
          gasPump_approveTransferCustodialWallet w b)
   \<and> path_of ` set (fst (send_transferFromCustodialWallet w b provider testnet)) = {Kms}
   \<and> path_of ` set (fst (send_batchTransferFromCustodialWallet w b provider testnet)) = {Kms}
   \<and> path_of ` set (fst (send_approveFromCustodialWallet w b provider)) = {Kms}"
  by (simp add: send_transferFromCustodialWallet_def send_batchTransferFromCustodialWallet_def
        send_approveFromCustodialWallet_def)

theorem send_with_signatureId_routes_to_kms_witness:
  "truthy (get_field [''signatureId'' \<mapsto> Str ''26d3883e'', ''amount'' \<mapsto> Str ''1''] ''signatureId'')
   \<and> send_transferFromCustodialWallet sample_world
        [''signatureId'' \<mapsto> Str ''26d3883e'', ''amount'' \<mapsto> Str ''1''] None None
       = ([GasPumpService_transferCustodialWallet
             [''signatureId'' \<mapsto> Str ''26d3883e'', ''amount'' \<mapsto> Str ''1'']],
          Inr (Obj [(''signatureId'', Str ''sig-transfer'')]))
   \<and> send_approveFromCustodialWallet sample_world
        [''signatureId'' \<mapsto> Str ''26d3883e'', ''amount'' \<mapsto> Str ''1''] None
       = ([GasPumpService_approveTransferCustodialWallet
             [''signatureId'' \<mapsto> Str ''26d3883e'', ''amount'' \<mapsto> Str ''1'']],
          [''signatureId'' \<mapsto> Str ''26d3883e'', ''amount'' \<mapsto> Str ''1''],
          Inr (Obj [(''signatureId'', Str ''sig-approve'')]))"
  using send_with_signatureId_routes_to_kms
          [of "[''signatureId'' \<mapsto> Str ''26d3883e'', ''amount'' \<mapsto> Str ''1'']"
              sample_world None None]
  by (simp add: get_field_def sample_world_def)








text \<open>
  C10. Whatever the custodial approve preparation does, it modifies no field of the
  request body other than \<open>amount\<close>; and once it has encoded its parameters and called
  \<open>helperPrepareSCCall\<close> (in particular whenever it returns transaction data) the
  body's \<open>amount\<close> field is absent: it was deleted after being read into the encoded
  parameter.
\<close>

theorem approve_deletes_amount_only:
  "approveFromCustodialWallet w b provider = (cs, b', r) \<Longrightarrow>
     (\<forall>k. k \<noteq> ''amount'' \<longrightarrow> b' k = b k)
     \<and> (list_ex is_HelperPrepareSCCall cs \<longrightarrow> b' ''amount'' = None)
     \<and> ((\<exists>txData. r = Inr txData) \<longrightarrow> list_ex is_HelperPrepareSCCall cs)"
  by (auto simp: approveFromCustodialWallet_def Let_def
        split: sum.splits jsval.splits if_splits)

theorem approve_deletes_amount_only_witness:
  "approve_fungible ''1.5'' ''amount'' = Some (Str ''1.5'')
   \<and> snd (snd (approveFromCustodialWallet sample_world (approve_fungible ''1.5'') None))
       = Inr ''0xf803''
   \<and> list_ex is_HelperPrepareSCCall
       (fst (approveFromCustodialWallet sample_world (approve_fungible ''1.5'') None))
   \<and> fst (snd (approveFromCustodialWallet sample_world (approve_fungible ''1.5'') None)) ''amount''
       = None
   \<and> fst (snd (approveFromCustodialWallet sample_world (approve_fungible ''1.5'') None)) ''spender''
       = Some (Str ''0x5e'')
   \<and> fst (snd (approveFromCustodialWallet sample_world (approve_fungible ''1.5'') None)) ''tokenAddress''
       = Some (Str '' 0xa0b8 '')"
proof -
  obtain cs b' r where run:
    "approveFromCustodialWallet sample_world (approve_fungible ''1.5'') None = (cs, b', r)"
    by (cases "approveFromCustodialWallet sample_world (approve_fungible ''1.5'') None")
  have r: "r = Inr ''0xf803''"
    using run
    by (auto simp: approveFromCustodialWallet_def Let_def sample_world_def approve_fungible_def
          get_field_def split: sum.splits jsval.splits if_splits)
  have orig: "approve_fungible ''1.5'' ''amount'' = Some (Str ''1.5'')"
       "approve_fungible ''1.5'' ''spender'' = Some (Str ''0x5e'')"
       "approve_fungible ''1.5'' ''tokenAddress'' = Some (Str '' 0xa0b8 '')"
    by (simp_all add: approve_fungible_def)
  show ?thesis
    using approve_deletes_amount_only [OF run] r orig
    by (simp add: run)
qed

text \<open>
  A decimals lookup that fails raises before anything is read from the body or deleted.
\<close>

lemma approve_failed_lookup_keeps_body:
  "b ''contractType'' = Some (Num 0) \<Longrightarrow>
   decimals w (get_field b ''tokenAddress'') provider = Inl e \<Longrightarrow>
   approveFromCustodialWallet w b provider
     = ([Decimals (get_field b ''tokenAddress'') provider], b, Inl e)"
  by (simp add: approveFromCustodialWallet_def)

subsection \<open>Doubles: the rounding error of \<open>parseFloat\<close> and the digits of \<open>toFixed\<close>\<close>

lemma pow2_powi: "pow2 e = 2 powi e"
  by (simp add: pow2_def power_int_def field_simps)

lemma pow2_pos: "0 < pow2 e"
  by (simp add: pow2_powi)

lemma pow2_add: "pow2 (a + b) = pow2 a * pow2 b"
  by (simp add: pow2_powi power_int_add)

lemma pow2_mono: "a \<le> b \<Longrightarrow> pow2 a \<le> pow2 b"
  by (simp add: pow2_powi power_int_increasing)

lemma bitlen_bounds:
  "0 < n \<Longrightarrow> 0 < bitlen n \<and> 2 ^ nat (bitlen n - 1) \<le> n \<and> n < 2 ^ nat (bitlen n)"
proof (induction n rule: bitlen.induct)
  case (1 n)
  show ?case
  proof (cases "n = 1")
    case True
    have "bitlen 1 = 1" by (simp add: bitlen.simps)
    with True show ?thesis by simp
  next
    case False
    with "1.prems" have pos: "0 < n div 2" by simp
    from "1.prems" have "\<not> n \<le> 0" by simp
    from "1.IH" [OF this pos] have IH: "0 < bitlen (n div 2)"
      "2 ^ nat (bitlen (n div 2) - 1) \<le> n div 2" "n div 2 < 2 ^ nat (bitlen (n div 2))"
      by simp_all
    have b: "bitlen n = 1 + bitlen (n div 2)"
      using "1.prems" by (subst bitlen.simps) simp
    define k where "k = nat (bitlen (n div 2) - 1)"
    have k1: "nat (bitlen (n div 2)) = Suc k"
      using IH(1) by (simp add: k_def)
    have k2: "nat (bitlen n - 1) = Suc k" "nat (bitlen n) = Suc (Suc k)"
      using IH(1) b by (simp_all add: k_def)
    have lo: "(2::int) ^ Suc k \<le> n"
      using IH(2) by (simp add: k_def [symmetric])
    have hi: "n < (2::int) ^ Suc (Suc k)"
      using IH(3) by (simp add: k1)
    have "0 < bitlen n" using b IH(1) by simp
    moreover have "2 ^ nat (bitlen n - 1) \<le> n" unfolding k2(1) by (rule lo)
    moreover have "n < 2 ^ nat (bitlen n)" unfolding k2(2) by (rule hi)
    ultimately show ?thesis by blast
  qed
qed

lemma floor_log2_bounds:
  assumes "0 < x"
  shows "pow2 (floor_log2 x) \<le> x \<and> x < pow2 (floor_log2 x + 1)"
proof -
  obtain p q where pq: "quotient_of x = (p, q)" by (cases "quotient_of x")
  then have q: "0 < q" and x: "x = of_int p / of_int q"
    by (auto dest: quotient_of_denom_pos quotient_of_div)
  have p: "0 < p"
    using assms q x by (simp add: zero_less_divide_iff)
  define bp where "bp = bitlen p"
  define bq where "bq = bitlen q"
  from bitlen_bounds [OF p] have P: "0 < bp" "2 ^ nat (bp - 1) \<le> p" "p < 2 ^ nat bp"
    by (simp_all add: bp_def)
  from bitlen_bounds [OF q] have Q: "0 < bq" "2 ^ nat (bq - 1) \<le> q" "q < 2 ^ nat bq"
    by (simp_all add: bq_def)
  have Plo: "pow2 (bp - 1) \<le> of_int p"
  proof -
    have "(of_int (2 ^ nat (bp - 1)) :: rat) \<le> of_int p" using P(2) by (simp only: of_int_le_iff)
    moreover have "pow2 (bp - 1) = 2 ^ nat (bp - 1)" using P(1) by (simp add: pow2_def)
    ultimately show ?thesis by simp
  qed
  have Phi: "of_int p < pow2 bp"
  proof -
    have "(of_int p :: rat) < of_int (2 ^ nat bp)" using P(3) by (simp only: of_int_less_iff)
    moreover have "pow2 bp = 2 ^ nat bp" using P(1) by (simp add: pow2_def)
    ultimately show ?thesis by simp
  qed
  have Qlo: "pow2 (bq - 1) \<le> of_int q"
  proof -
    have "(of_int (2 ^ nat (bq - 1)) :: rat) \<le> of_int q" using Q(2) by (simp only: of_int_le_iff)
    moreover have "pow2 (bq - 1) = 2 ^ nat (bq - 1)" using Q(1) by (simp add: pow2_def)
    ultimately show ?thesis by simp
  qed
  have Qhi: "of_int q < pow2 bq"
  proof -
    have "(of_int q :: rat) < of_int (2 ^ nat bq)" using Q(3) by (simp only: of_int_less_iff)
    moreover have "pow2 bq = 2 ^ nat bq" using Q(1) by (simp add: pow2_def)
    ultimately show ?thesis by simp
  qed
  have qr: "(0::rat) < of_int q" using q by simp
  have upper: "x < pow2 (bp - bq + 1)"
  proof -
    have "of_int p < pow2 (bp - bq + 1) * pow2 (bq - 1)"
      using Phi by (simp add: pow2_add [symmetric])
    also have "\<dots> \<le> pow2 (bp - bq + 1) * of_int q"
      using Qlo pow2_pos [of "bp - bq + 1"] by simp
    finally show ?thesis using qr by (simp add: x pos_divide_less_eq)
  qed
  have lower: "pow2 (bp - bq - 1) \<le> x"
  proof -
    have "pow2 (bp - bq - 1) * of_int q \<le> pow2 (bp - bq - 1) * pow2 bq"
      using Qhi pow2_pos [of "bp - bq - 1"] by simp
    also have "\<dots> = pow2 (bp - 1)" by (simp add: pow2_add [symmetric])
    also have "\<dots> \<le> of_int p" by (rule Plo)
    finally show ?thesis using qr by (simp add: x pos_le_divide_eq)
  qed
  have fl: "floor_log2 x = (if pow2 (bp - bq) \<le> x then bp - bq else bp - bq - 1)"
    by (simp add: floor_log2_def pq bp_def bq_def Let_def)
  show ?thesis
    using upper lower by (auto simp: fl)
qed

lemma round_half_even_error: "\<bar>of_int (round_half_even y) - y\<bar> \<le> 1 / 2"
proof -
  have "of_int \<lfloor>y\<rfloor> \<le> y" "y < of_int \<lfloor>y\<rfloor> + 1" by linarith+
  then show ?thesis
    by (auto simp: round_half_even_def Let_def abs_le_iff)
qed

lemma to_double_normal:
  assumes "0 < x" and "- 1022 \<le> floor_log2 x" and "floor_log2 x \<le> 1022"
  shows "\<exists>d. to_double x = Finite d \<and> \<bar>d - x\<bar> \<le> x * pow2 (- 53)"
proof -
  define e where "e = floor_log2 x"
  define ulp where "ulp = pow2 (e - 52)"
  define m where "m = round_half_even (x / ulp)"
  have ulp_pos: "0 < ulp" by (simp add: ulp_def pow2_pos)
  have emax: "max (floor_log2 x) (- 1022) = e" using assms(2) by (simp add: e_def)
  have td: "to_double x = Finite (of_int m * ulp)"
    using assms(1,3) emax by (simp add: to_double_def Let_def e_def [symmetric] ulp_def m_def)
  have "\<bar>of_int m - x / ulp\<bar> \<le> 1 / 2"
    unfolding m_def by (rule round_half_even_error)
  then have "\<bar>of_int m - x / ulp\<bar> * ulp \<le> 1 / 2 * ulp"
    using ulp_pos by (simp only: mult_le_cancel_right_pos)
  moreover have "\<bar>of_int m - x / ulp\<bar> * ulp = \<bar>of_int m * ulp - x\<bar>"
  proof -
    have "\<bar>of_int m - x / ulp\<bar> * ulp = \<bar>(of_int m - x / ulp) * ulp\<bar>"
      using ulp_pos by (simp add: abs_mult)
    also have "(of_int m - x / ulp) * ulp = of_int m * ulp - x"
      using ulp_pos by (simp add: field_simps)
    finally show ?thesis .
  qed
  moreover have "1 / 2 * ulp = pow2 e * pow2 (- 53)"
  proof -
    have "pow2 (e - 52) = pow2 e * pow2 (- 52)"
      using pow2_add [of e "- 52"] by simp
    moreover have "pow2 (- 52) = 2 * pow2 (- 53)"
      by (simp add: pow2_def)
    ultimately show ?thesis by (simp add: ulp_def)
  qed
  moreover have "pow2 e * pow2 (- 53) \<le> x * pow2 (- 53)"
    using floor_log2_bounds [OF assms(1)] pow2_pos [of "- 53"] by (simp add: e_def)
  ultimately have "\<bar>of_int m * ulp - x\<bar> \<le> x * pow2 (- 53)" by linarith
  with td show ?thesis by blast
qed

lemma floor_log2_range:
  assumes "1 / 10 ^ 8 \<le> x" and "x < 2 ^ 52"
  shows "- 1022 \<le> floor_log2 x \<and> floor_log2 x \<le> 1022"
proof -
  have pos: "0 < x" using assms(1) by (rule less_le_trans [rotated]) simp
  note B = floor_log2_bounds [OF pos]
  have lo: "- 1022 \<le> floor_log2 x"
  proof (rule ccontr)
    assume "\<not> - 1022 \<le> floor_log2 x"
    then have "floor_log2 x + 1 \<le> - 27" by simp
    then have "pow2 (floor_log2 x + 1) \<le> pow2 (- 27)" by (rule pow2_mono)
    also have "pow2 (- 27) < 1 / 10 ^ 8" by (simp add: pow2_def)
    finally show False using B assms(1) by simp
  qed
  have hi: "floor_log2 x \<le> 1022"
  proof (rule ccontr)
    assume "\<not> floor_log2 x \<le> 1022"
    then have "52 \<le> floor_log2 x" by simp
    then have "pow2 52 \<le> pow2 (floor_log2 x)" by (rule pow2_mono)
    moreover have "pow2 52 = 2 ^ 52" by (simp add: pow2_def)
    ultimately show False using B assms(2) by simp
  qed
  show ?thesis using lo hi by simp
qed

lemma to_double_fixed8:
  assumes "0 \<le> N" and "N < 2 ^ 52"
  shows "\<exists>d. to_double (of_int N / 10 ^ 8) = Finite d \<and> 0 \<le> d \<and> d < 10 ^ 21
              \<and> \<lfloor>d * 10 ^ 8 + 1 / 2\<rfloor> = N"
proof (cases "N = 0")
  case True
  then show ?thesis by (simp add: to_double_def floor_eq_iff)
next
  case False
  define x :: rat where "x = of_int N / 10 ^ 8"
  have N1: "1 \<le> N" using assms(1) False by simp
  have Nr: "(1::rat) \<le> of_int N" "(of_int N :: rat) < 2 ^ 52"
  proof -
    show "(1::rat) \<le> of_int N" using N1 by simp
    have "(of_int N :: rat) < of_int (2 ^ 52)" using assms(2) by (simp only: of_int_less_iff)
    then show "(of_int N :: rat) < 2 ^ 52" by simp
  qed
  have x_lo: "1 / 10 ^ 8 \<le> x" using Nr(1) by (simp add: x_def divide_le_cancel)
  have x_hi: "x < 2 ^ 52"
  proof -
    have "x \<le> of_int N" by (simp add: x_def field_simps) (use Nr(1) in linarith)
    then show ?thesis using Nr(2) by simp
  qed
  have pos: "0 < x" using x_lo by (rule less_le_trans [rotated]) simp
  from floor_log2_range [OF x_lo x_hi] to_double_normal [OF pos]
  obtain d where d: "to_double x = Finite d" "\<bar>d - x\<bar> \<le> x * pow2 (- 53)" by blast
  have "\<bar>d * 10 ^ 8 - of_int N\<bar> = \<bar>d - x\<bar> * 10 ^ 8"
  proof -
    have eq: "d * 10 ^ 8 - of_int N = (d - x) * 10 ^ 8" by (simp add: x_def algebra_simps)
    have "\<bar>(d - x) * 10 ^ 8\<bar> = \<bar>d - x\<bar> * \<bar>10 ^ 8\<bar>" by (rule abs_mult)
    then show ?thesis unfolding eq by simp
  qed
  also have "\<dots> \<le> x * pow2 (- 53) * 10 ^ 8"
    using d(2) by simp
  also have "\<dots> = of_int N * pow2 (- 53)" by (simp add: x_def)
  also have "\<dots> < 2 ^ 52 * pow2 (- 53)"
    using Nr(2) pow2_pos [of "- 53"] by (simp only: mult_less_cancel_right_pos)
  also have "\<dots> = 1 / 2" by (simp add: pow2_def)
  finally have close: "\<bar>d * 10 ^ 8 - of_int N\<bar> < 1 / 2" .
  have c2: "d * 10 ^ 8 - of_int N < 1 / 2" "- (d * 10 ^ 8 - of_int N) < 1 / 2"
    using close unfolding abs_less_iff by blast+
  have fl: "\<lfloor>d * 10 ^ 8 + 1 / 2\<rfloor> = N"
  proof (rule floor_unique)
    show "of_int N \<le> d * 10 ^ 8 + 1 / 2" using c2(2) by linarith
    show "d * 10 ^ 8 + 1 / 2 < of_int N + 1" using c2(1) by linarith
  qed
  have d0: "0 \<le> d"
  proof -
    have "0 < d * 10 ^ 8" using c2(2) Nr(1) by linarith
    then show ?thesis by (simp add: zero_less_mult_iff)
  qed
  have d1: "d < 10 ^ 21"
  proof -
    have "d * 10 ^ 8 < 2 ^ 52 + 1" using c2(1) Nr(2) by linarith
    also have "\<dots> < (10 ^ 21 :: rat) * 10 ^ 8" by simp
    finally have "d * 10 ^ 8 < (10 ^ 21 :: rat) * 10 ^ 8" .
    moreover have "(0::rat) < 10 ^ 8" by simp
    ultimately show ?thesis by (simp only: mult_less_cancel_right_pos)
  qed
  show ?thesis using d(1) d0 d1 fl by (auto simp: x_def)
qed

lemma dec_of_int_small: "n < 10 \<Longrightarrow> dec_of_int n = [dec_digit n]"
  by (subst dec_of_int.simps) simp

lemma dec_of_int_large:
  "\<not> n < 10 \<Longrightarrow> dec_of_int n = dec_of_int (n div 10) @ [dec_digit (n mod 10)]"
  by (subst dec_of_int.simps) simp

lemma dec_of_int_nonempty: "dec_of_int n \<noteq> []"
  by (cases "n < 10") (simp_all add: dec_of_int_small dec_of_int_large)

lemma length_dec_fixed: "length (dec_fixed f n) = f"
  by (induction f arbitrary: n) simp_all

lemma dec_fixed_zero: "dec_fixed f 0 = replicate f (CHR ''0'')"
proof (induction f)
  case 0
  show ?case by simp
next
  case (Suc f)
  have "dec_digit 0 = CHR ''0''" by (simp add: dec_digit_def)
  then show ?case using Suc by (simp add: replicate_append_same)
qed

lemma dec_digit_mod: "dec_digit (n mod 10) = dec_digit n"
  by (simp add: dec_digit_def)

lemma padded_digits:
  "0 \<le> n \<Longrightarrow>
   replicate (Suc f - length (dec_of_int n)) (CHR ''0'') @ dec_of_int n
     = dec_of_int (n div 10 ^ f) @ dec_fixed f (n mod 10 ^ f)"
proof (induction f arbitrary: n)
  case 0
  have "Suc 0 \<le> length (dec_of_int n)"
    using dec_of_int_nonempty [of n] by (cases "dec_of_int n") simp_all
  then show ?case by simp
next
  case (Suc f)
  show ?case
  proof (cases "n < 10")
    case True
    have lt: "n < 10 ^ Suc f"
      by (rule less_le_trans [OF True]) simp
    have d: "n div 10 ^ Suc f = 0" "n mod 10 ^ Suc f = n"
      using Suc.prems lt by simp_all
    have z: "n div 10 = 0" using Suc.prems True by simp
    have "dec_of_int 0 = [CHR ''0'']" by (simp add: dec_of_int_small dec_digit_def)
    then show ?thesis
      using True by (simp only: d dec_fixed.simps z dec_fixed_zero dec_digit_mod)
                    (simp add: dec_of_int_small replicate_append_same)
  next
    case False
    define A where "A = dec_of_int (n div 10)"
    have n10: "0 \<le> n div 10" using Suc.prems by simp
    have step: "dec_of_int n = A @ [dec_digit (n mod 10)]"
      using False by (simp add: dec_of_int_large A_def)
    have IH: "replicate (Suc f - length A) (CHR ''0'') @ A
        = dec_of_int (n div 10 div 10 ^ f) @ dec_fixed f (n div 10 mod 10 ^ f)"
      unfolding A_def by (rule Suc.IH [OF n10])
    have a1: "n div 10 ^ Suc f = n div 10 div 10 ^ f"
      by (simp add: zdiv_zmult2_eq)
    have a2: "n mod 10 ^ Suc f div 10 = n div 10 mod 10 ^ f"
      by (simp add: zmod_zmult2_eq)
    have a3: "n mod 10 ^ Suc f mod 10 = n mod 10"
      by (simp add: mod_mod_cancel)
    have "replicate (Suc (Suc f) - length (dec_of_int n)) (CHR ''0'') @ dec_of_int n
        = (replicate (Suc f - length A) (CHR ''0'') @ A) @ [dec_digit (n mod 10)]"
      by (simp add: step)
    also have "\<dots> = dec_of_int (n div 10 ^ Suc f) @ dec_fixed (Suc f) (n mod 10 ^ Suc f)"
      by (simp only: IH a1 dec_fixed.simps a2 a3) simp
    finally show ?thesis .
  qed
qed

lemma insert_point_digits:
  assumes "0 \<le> N" and "0 < f"
  shows "insert_point f (dec_of_int N) = decimal_numeral f N"
proof -
  define m where "m = dec_of_int N"
  define m' where "m' = (if length m \<le> f then replicate (f + 1 - length m) (CHR ''0'') @ m else m)"
  have "m' = replicate (Suc f - length m) (CHR ''0'') @ m"
    by (simp add: m'_def)
  then have split: "m' = dec_of_int (N div 10 ^ f) @ dec_fixed f (N mod 10 ^ f)"
    using padded_digits [OF assms(1), of f] by (simp add: m_def)
  have len: "length m' - f = length (dec_of_int (N div 10 ^ f))"
    by (simp add: split length_dec_fixed)
  have tk: "take (length m' - f) m' = dec_of_int (N div 10 ^ f)"
    unfolding len by (simp add: split)
  have dr: "drop (length m' - f) m' = dec_fixed f (N mod 10 ^ f)"
    unfolding len by (simp add: split)
  have "insert_point f (dec_of_int N)
      = take (length m' - f) m' @ (if f \<noteq> 0 then ''.'' @ drop (length m' - f) m' else [])"
    unfolding insert_point_def Let_def m'_def m_def ..
  then show ?thesis using assms(2) by (simp add: tk dr decimal_numeral_def)
qed

lemma toFixed_nearest:
  assumes "0 \<le> d" and "d < 10 ^ 21" and "\<lfloor>d * 10 ^ f + 1 / 2\<rfloor> = N" and "0 < f"
  shows "toFixed nts f (Finite d) = decimal_numeral f N"
proof -
  have N0: "0 \<le> N"
  proof -
    have "0 \<le> d * 10 ^ f + 1 / 2" using assms(1) by simp
    then have "0 \<le> \<lfloor>d * 10 ^ f + 1 / 2\<rfloor>" by (simp only: zero_le_floor)
    then show ?thesis by (simp only: assms(3))
  qed
  have abs: "\<bar>d\<bar> = d" using assms(1) by simp
  have "toFixed nts f (Finite d) = insert_point f (dec_of_int N)"
    using assms(1,2) by (simp add: toFixed_def Let_def abs assms(3))
  then show ?thesis by (simp add: insert_point_digits [OF N0 assms(4)])
qed

lemma parseFloat_toFixed_exact:
  assumes "StrDecimalLiteral s = Decimal (of_int N / 10 ^ 8)" and "0 \<le> N" and "N < 2 ^ 52"
  shows "toFixed nts 8 (parseFloat s) = decimal_numeral 8 N"
proof -
  from to_double_fixed8 [OF assms(2,3)] obtain d where
    d: "to_double (of_int N / 10 ^ 8) = Finite d" "0 \<le> d" "d < 10 ^ 21"
       "\<lfloor>d * 10 ^ 8 + 1 / 2\<rfloor> = N"
    by blast
  have "parseFloat s = to_double (of_int N / 10 ^ 8)"
    by (simp only: parseFloat_def assms(1) literal.case)
  then have "parseFloat s = Finite d" by (simp only: d(1))
  then show ?thesis using toFixed_nearest [OF d(2,3,4)] by simp
qed

subsection \<open>Flow transfers\<close>

lemma sendTransaction_tx_built:
  assumes "sendTransaction_tx w testnet body pf qf = Inr tx"
  shows "args tx = [\<lparr> arg_value = toFixed (Number_toString w) 8 (parseFloat (amount body)),
                       arg_type = ''UFix64'' \<rparr>,
                    \<lparr> arg_value = to body, arg_type = ''Address'' \<rparr>]"
    and "code tx = PrepareTransferTxTemplate testnet
           (if currency body = Blockchain_FLOW
            then FlowToken (if testnet then FLOW_TESTNET_ADDRESSES else FLOW_MAINNET_ADDRESSES)
            else FUSD (if testnet then FLOW_TESTNET_ADDRESSES else FLOW_MAINNET_ADDRESSES))
           (if currency body = Blockchain_FLOW then ''FlowToken'' else ''FUSD'')
           (if currency body = Blockchain_FLOW then ''flowToken'' else ''fusd'')"
  using assms
  by (auto simp: sendTransaction_tx_def Let_def split: sum.splits if_splits)

text \<open>
  C6 (as amended). In the transaction a Flow transfer builds, the amount argument is
  \<open>parseFloat(amount).toFixed(8)\<close>, typed \<open>UFix64\<close>: the amount read as a double and
  rounded to 8 decimal places. Whenever the amount denotes \<open>N / 10^8\<close> for an integer
  \<open>0 \<le> N < 2^52\<close> (a non-negative decimal with at most 8 fraction digits, below
  45035996.27370496) the argument is that number exactly, written with exactly 8
  decimal places: \<open>"1.23456789"\<close> yields \<open>"1.23456789"\<close>. The token contract address, name
  and storage name passed to the template are the \<open>FlowToken\<close> constants when the currency
  is \<open>FLOW\<close> and the \<open>FUSD\<close> constants otherwise, the address taken from the testnet
  table when the testnet flag is set and from the mainnet table otherwise.
\<close>

theorem transfer_amount_and_constants:
  assumes "sendTransaction_tx w testnet body pf qf = Inr tx"
  shows
  "(StrDecimalLiteral (amount body) = Decimal (of_int N / 10 ^ 8) \<and> 0 \<le> N \<and> N < 2 ^ 52 \<longrightarrow>
      map arg_value (args tx) = [decimal_numeral 8 N, to body])
   \<and> map arg_type (args tx) = [''UFix64'', ''Address'']
   \<and> code tx = PrepareTransferTxTemplate testnet
        (if currency body = Blockchain_FLOW
         then (if testnet then ''0x7e60df042a9c0868'' else ''0x1654653399040a61'')
         else (if testnet then ''0xe223d8a629e49c68'' else ''0x3c5959b568896393''))
        (if currency body = Blockchain_FLOW then ''FlowToken'' else ''FUSD'')
        (if currency body = Blockchain_FLOW then ''flowToken'' else ''fusd'')
   \<and> FlowToken FLOW_TESTNET_ADDRESSES = ''0x7e60df042a9c0868''
   \<and> FlowToken FLOW_MAINNET_ADDRESSES = ''0x1654653399040a61''
   \<and> FUSD FLOW_TESTNET_ADDRESSES = ''0xe223d8a629e49c68''
   \<and> FUSD FLOW_MAINNET_ADDRESSES = ''0x3c5959b568896393''"
proof -
  note built = sendTransaction_tx_built [OF assms]
  have amount_exact: "map arg_value (args tx) = [decimal_numeral 8 N, to body]"
    if "StrDecimalLiteral (amount body) = Decimal (of_int N / 10 ^ 8)" "0 \<le> N" "N < 2 ^ 52"
    using parseFloat_toFixed_exact [OF that] by (simp add: built(1))
  have types: "map arg_type (args tx) = [''UFix64'', ''Address'']"
    by (simp add: built(1))
  have tmpl: "code tx = PrepareTransferTxTemplate testnet
        (if currency body = Blockchain_FLOW
         then (if testnet then ''0x7e60df042a9c0868'' else ''0x1654653399040a61'')
         else (if testnet then ''0xe223d8a629e49c68'' else ''0x3c5959b568896393''))
        (if currency body = Blockchain_FLOW then ''FlowToken'' else ''FUSD'')
        (if currency body = Blockchain_FLOW then ''flowToken'' else ''fusd'')"
    by (simp add: built(2) FLOW_TESTNET_ADDRESSES_def FLOW_MAINNET_ADDRESSES_def)
  show ?thesis
    using amount_exact types tmpl
    by (simp add: FLOW_TESTNET_ADDRESSES_def FLOW_MAINNET_ADDRESSES_def)
qed

lemma flow_transfer_built:
  "sendTransaction_tx sample_flow_world testnet (flow_transfer a) None None
     = Inr \<lparr> code = PrepareTransferTxTemplate testnet
                       (if testnet then ''0x7e60df042a9c0868'' else ''0x1654653399040a61'')
                       ''FlowToken'' ''flowToken'',
              args = [\<lparr> arg_value = toFixed (\<lambda>x. ''1e+21'') 8 (parseFloat a),
                         arg_type = ''UFix64'' \<rparr>,
                      \<lparr> arg_value = ''0xABC'', arg_type = ''Address'' \<rparr>],
              proposer = Signer (ApiSigner False (''FLOW_PROPOSAL_KEY_'' @ dec_of_int 1700000000000)),
              authorizations = [GetSigner ''a1b2'' ''0x01''],
              payer = Signer (ApiSigner True (''FLOW_PROPOSAL_KEY_'' @ dec_of_int 1700000000000)),
              keyHash = Some (''FLOW_PROPOSAL_KEY_'' @ dec_of_int 1700000000000) \<rparr>"
  by (simp add: sendTransaction_tx_def Let_def flow_transfer_def sample_flow_world_def
        getPrivateKey_def Blockchain_FLOW_def getApiSigner_def
        FLOW_TESTNET_ADDRESSES_def FLOW_MAINNET_ADDRESSES_def)

theorem transfer_amount_and_constants_witness:
  "StrDecimalLiteral (amount (flow_transfer ''1.23456789'')) = Decimal (of_int 123456789 / 10 ^ 8)
   \<and> (0::int) \<le> 123456789 \<and> (123456789::int) < 2 ^ 52
   \<and> built_arg_values (sendTransaction_tx sample_flow_world True (flow_transfer ''1.23456789'') None None)
       = Inr [''1.23456789'', ''0xABC'']
   \<and> map_sum id code (sendTransaction_tx sample_flow_world True (flow_transfer ''1.23456789'') None None)
       = Inr (PrepareTransferTxTemplate True ''0x7e60df042a9c0868'' ''FlowToken'' ''flowToken'')"
proof -
  let ?b = "flow_transfer ''1.23456789''"
  obtain tx where tx: "sendTransaction_tx sample_flow_world True ?b None None = Inr tx"
    using flow_transfer_built [of True "''1.23456789''"] by simp
  have lit: "StrDecimalLiteral (amount ?b) = Decimal (of_int 123456789 / 10 ^ 8)"
    by code_simp
  have num: "decimal_numeral 8 123456789 = ''1.23456789''" by code_simp
  have cur: "currency ?b = Blockchain_FLOW" "to ?b = ''0xABC''"
    by (simp_all add: flow_transfer_def Blockchain_FLOW_def)
  have rng: "(0::int) \<le> 123456789" "(123456789::int) < 2 ^ 52" by simp_all
  from transfer_amount_and_constants [OF tx, of 123456789] lit rng
  have "map arg_value (args tx) = [''1.23456789'', ''0xABC'']"
    and "code tx = PrepareTransferTxTemplate True ''0x7e60df042a9c0868'' ''FlowToken'' ''flowToken''"
    by (simp_all only: num cur if_True simp_thms)
  then show ?thesis
    using lit rng by (simp only: tx built_arg_values_def map_sum.simps id_apply simp_thms)
qed

text \<open>
  The claim as first stated (no rounding loss for every transfer) fails beyond the
  precision of a double, also for an amount with exactly 8 decimal places:
  100000000.00000002 is sent as 100000000.00000001. An amount with more than 8 decimal
  places is rounded as well.
\<close>

theorem transfer_amount_rounding_loss:
  "StrDecimalLiteral ''100000000.00000002'' = Decimal (10000000000000002 / 10 ^ 8)
   \<and> built_arg_values
        (sendTransaction_tx sample_flow_world True (flow_transfer ''100000000.00000002'') None None)
       = Inr [''100000000.00000001'', ''0xABC'']
   \<and> built_arg_values
        (sendTransaction_tx sample_flow_world True (flow_transfer ''0.123456789'') None None)
       = Inr [''0.12345679'', ''0xABC'']"
proof -
  have lit: "StrDecimalLiteral ''100000000.00000002'' = Decimal (10000000000000002 / 10 ^ 8)"
    by code_simp
  have a1: "toFixed (\<lambda>x. ''1e+21'') 8 (parseFloat ''100000000.00000002'') = ''100000000.00000001''"
    by code_simp
  have a2: "toFixed (\<lambda>x. ''1e+21'') 8 (parseFloat ''0.123456789'') = ''0.12345679''"
    by code_simp
  show ?thesis
    by (simp only: lit flow_transfer_built built_arg_values_def a1 a2 map_sum.simps
          Transaction.simps list.map FlowArgs.simps id_apply simp_thms)
qed

text \<open>
  C8 (as amended). The Flow transfer builder never fails on account of the amount. It
  raises an error exactly when key resolution does (or yields an empty key), and key
  resolution does not read the amount. Whenever it builds a transaction the amount
  argument is \<open>parseFloat(amount).toFixed(8)\<close>: the string \<open>NaN\<close> for an amount that is
  not numeric, and for a negative amount the minus sign followed by the formatted
  absolute value.
\<close>

theorem transfer_amount_never_rejected:
  "((sendTransaction_tx w testnet body pf qf = Inl e)
      = (getPrivateKey (generatePrivateKeyFromMnemonic w) body = Inl e
         \<or> getPrivateKey (generatePrivateKeyFromMnemonic w) body = Inr []
            \<and> e = FlowSdkError_code FLOW_MISSING_PRIVATE_KEY))
   \<and> getPrivateKey (generatePrivateKeyFromMnemonic w) (body\<lparr>amount := a\<rparr>)
       = getPrivateKey (generatePrivateKeyFromMnemonic w) body
   \<and> (\<forall>tx. sendTransaction_tx w testnet body pf qf = Inr tx \<longrightarrow>
         map arg_value (args tx)
           = [toFixed (Number_toString w) 8 (parseFloat (amount body)), to body])
   \<and> (StrDecimalLiteral (amount body) = NotNumeric \<longrightarrow>
         toFixed (Number_toString w) 8 (parseFloat (amount body)) = ''NaN'')
   \<and> (\<forall>v. parseFloat (amount body) = Finite v \<and> v < 0 \<longrightarrow>
         toFixed (Number_toString w) 8 (parseFloat (amount body))
           = ''-'' @ toFixed (Number_toString w) 8 (Finite (- v)))"
proof -
  have fails: "(sendTransaction_tx w testnet body pf qf = Inl e)
      = (getPrivateKey (generatePrivateKeyFromMnemonic w) body = Inl e
         \<or> getPrivateKey (generatePrivateKeyFromMnemonic w) body = Inr []
            \<and> e = FlowSdkError_code FLOW_MISSING_PRIVATE_KEY)"
    by (auto simp: sendTransaction_tx_def Let_def split: sum.splits)
  have key: "getPrivateKey (generatePrivateKeyFromMnemonic w) (body\<lparr>amount := a\<rparr>)
       = getPrivateKey (generatePrivateKeyFromMnemonic w) body"
    by (simp add: getPrivateKey_def)
  have built: "map arg_value (args tx)
           = [toFixed (Number_toString w) 8 (parseFloat (amount body)), to body]"
    if "sendTransaction_tx w testnet body pf qf = Inr tx" for tx
    by (simp add: sendTransaction_tx_built(1) [OF that])
  have nan: "toFixed (Number_toString w) 8 (parseFloat (amount body)) = ''NaN''"
    if "StrDecimalLiteral (amount body) = NotNumeric"
    by (simp add: parseFloat_def that toFixed_def)
  have neg: "toFixed (Number_toString w) 8 (parseFloat (amount body))
           = ''-'' @ toFixed (Number_toString w) 8 (Finite (- v))"
    if "parseFloat (amount body) = Finite v" "v < 0" for v
    using that by (simp add: toFixed_def Let_def)
  show ?thesis
    using fails key built nan neg by blast
qed

theorem transfer_amount_never_rejected_witness:
  "StrDecimalLiteral (amount (flow_transfer ''abc'')) = NotNumeric
   \<and> built_arg_values (sendTransaction_tx sample_flow_world True (flow_transfer ''abc'') None None)
       = Inr [''NaN'', ''0xABC'']
   \<and> parseFloat (amount (flow_transfer ''-5'')) = Finite (- 5)
   \<and> built_arg_values (sendTransaction_tx sample_flow_world True (flow_transfer ''-5'') None None)
       = Inr [''-'' @ toFixed (Number_toString sample_flow_world) 8 (Finite (- (- 5))), ''0xABC'']"
proof -
  have lit: "StrDecimalLiteral (amount (flow_transfer ''abc'')) = NotNumeric" by code_simp
  have pf: "parseFloat (amount (flow_transfer ''-5'')) = Finite (- 5)" by code_simp
  have am: "amount (flow_transfer ''abc'') = ''abc''" "amount (flow_transfer ''-5'') = ''-5''"
    by (simp_all add: flow_transfer_def)
  have nts: "Number_toString sample_flow_world = (\<lambda>x. ''1e+21'')"
    by (simp add: sample_flow_world_def)
  from transfer_amount_never_rejected
         [of sample_flow_world True "flow_transfer ''abc''" None None "TypeError" "''abc''"] lit
  have nan: "toFixed (\<lambda>x. ''1e+21'') 8 (parseFloat ''abc'') = ''NaN''"
    by (simp only: am nts simp_thms)
  from transfer_amount_never_rejected
         [of sample_flow_world True "flow_transfer ''-5''" None None "TypeError" "''-5''"] pf
  have neg: "toFixed (\<lambda>x. ''1e+21'') 8 (parseFloat ''-5'')
      = ''-'' @ toFixed (\<lambda>x. ''1e+21'') 8 (Finite (- (- 5)))"
    by (simp only: am nts) simp
  show ?thesis
    using lit pf
    by (simp only: flow_transfer_built built_arg_values_def nan neg nts map_sum.simps
          Transaction.simps list.map FlowArgs.simps id_apply simp_thms)
qed

text \<open>
  The claim as first stated (a negative or non-numeric amount makes the builder fail with a
  typed SDK error) fails: the amounts \<open>abc\<close> and \<open>-5\<close> are built into transactions with
  the arguments \<open>NaN\<close> and \<open>-5.00000000\<close>, and the send goes through to the chain.
\<close>

theorem transfer_bad_amount_is_sent:
  "built_arg_values (sendTransaction_tx sample_flow_world True (flow_transfer ''abc'') None None)
       = Inr [''NaN'', ''0xABC'']
   \<and> built_arg_values (sendTransaction_tx sample_flow_world True (flow_transfer ''-5'') None None)
       = Inr [''-5.00000000'', ''0xABC'']
   \<and> fst (sendTransaction sample_flow_world True (flow_transfer ''abc'') None None Map.empty)
       = Inr ''tx-1''
   \<and> fst (sendTransaction sample_flow_world True (flow_transfer ''-5'') None None Map.empty)
       = Inr ''tx-1''"
proof -
  have a1: "toFixed (\<lambda>x. ''1e+21'') 8 (parseFloat ''abc'') = ''NaN''" by code_simp
  have a2: "toFixed (\<lambda>x. ''1e+21'') 8 (parseFloat ''-5'') = ''-5.00000000''" by code_simp
  have sent: "fst (sendTransaction sample_flow_world True (flow_transfer a) None None Map.empty)
       = Inr ''tx-1''" for a
    unfolding sendTransaction_def flow_transfer_built sum.case
    by (simp add: private_sendTransaction_def sample_flow_world_def Let_def)
  show ?thesis
    by (simp only: flow_transfer_built built_arg_values_def a1 a2 sent map_sum.simps
          Transaction.simps list.map FlowArgs.simps id_apply simp_thms)
qed

subsection \<open>Flow key resolution\<close>

text \<open>
  Away from index 0 and empty strings, \<open>getPrivateKey\<close> is the reference definition.
\<close>

lemma getPrivateKey_matches_reference:
  "index body \<noteq> Some 0 \<Longrightarrow> privateKey body \<noteq> Some [] \<Longrightarrow> mnemonic body \<noteq> Some [] \<Longrightarrow>
   getPrivateKey derive body = resolve_reference derive body"
  by (auto simp: getPrivateKey_def resolve_reference_def Let_def split: option.splits)

text \<open>
  C2. Key resolution is claimed to match the reference definition: the private key if
  present, else the key derived from mnemonic and index when a mnemonic is present and
  \<open>index >= 0\<close>, else the missing-key-material error. At index 0, the first
  derivation index, the code does not: its test \<open>mnemonic && index && index >= 0\<close> reads
  the index 0 as absent and raises \<open>FLOW_MISSING_MNEMONIC\<close>, where the reference derives
  the key (as the code does for index 1).
\<close>

theorem getPrivateKey_index_zero_rejected:
  "getPrivateKey derive
      \<lparr> mnemonic = Some ''army van defense carry jealous true'', index = Some 0,
        privateKey = None \<rparr>
     = Inl (FlowSdkError_code FLOW_MISSING_MNEMONIC)
   \<and> resolve_reference derive
      \<lparr> mnemonic = Some ''army van defense carry jealous true'', index = Some 0,
        privateKey = None \<rparr>
     = derive ''army van defense carry jealous true'' 0
   \<and> getPrivateKey derive
      \<lparr> mnemonic = Some ''army van defense carry jealous true'', index = Some 1,
        privateKey = None \<rparr>
     = derive ''army van defense carry jealous true'' 1"
  by (simp add: getPrivateKey_def resolve_reference_def)

subsection \<open>The Flow broadcaster's cleanup\<close>

text \<open>
  When the API call that releases the proposal key succeeds, the staged entry is gone
  after \<open>_sendTransaction\<close>, whether the submission failed, the confirmation failed or
  the transaction was sealed. When that call is refused, nothing is deleted: the
  environment is the one \<open>fcl.send\<close> left behind.
\<close>

lemma private_sendTransaction_releases_key:
  assumes "keyHash tx = Some kh" and "kh \<noteq> []"
    and "\<And>txId key. flow_broadcast w txId key = Inr ()"
  shows "snd (private_sendTransaction w testnet tx env) kh = None"
  using assms
  by (auto simp: private_sendTransaction_def Let_def split: sum.splits prod.splits)

lemma private_sendTransaction_keeps_key_when_release_fails:
  assumes "keyHash tx = Some kh" and "kh \<noteq> []"
    and "\<And>txId key. flow_broadcast w txId key = Inl (e2 txId key)"
  shows "snd (private_sendTransaction w testnet tx env) = snd (fcl_send w (networkUrl testnet) tx env)"
  using assms
  by (auto simp: private_sendTransaction_def Let_def split: sum.splits prod.splits)

lemma sendTransaction_tx_ignores_release:
  "sendTransaction_tx (w\<lparr>flow_broadcast := f\<rparr>) testnet body pf qf
     = sendTransaction_tx w testnet body pf qf"
  by (simp add: sendTransaction_tx_def Let_def split: sum.splits option.splits)

text \<open>
  C4. The broadcaster is claimed to remove the staged proposer-key entry on every exit
  path. The deletion is the statement after the awaited release call, in the \<open>catch\<close>
  block and in the \<open>finally\<close> block alike, so an exit through a refused release call
  skips it: here the transaction is submitted and sealed, the release is refused with
  \<open>503\<close>, the send raises that error, and the entry staged under
  \<open>FLOW_PROPOSAL_KEY_1700000000000\<close> is still in the environment. With the release
  accepted, the same send returns the transaction id and the entry is gone.
\<close>

theorem proposal_key_left_when_release_fails:
  "map_sum id keyHash
     (sendTransaction_tx release_refused_world True (flow_transfer ''1'') None None)
     = Inr (Some ''FLOW_PROPOSAL_KEY_1700000000000'')
   \<and> sendTransaction release_refused_world True (flow_transfer ''1'') None None Map.empty
     = (Inl (External ''503''), [''FLOW_PROPOSAL_KEY_1700000000000'' \<mapsto> ''3''])
   \<and> fst (sendTransaction sample_flow_world True (flow_transfer ''1'') None None Map.empty)
     = Inr ''tx-1''
   \<and> snd (sendTransaction sample_flow_world True (flow_transfer ''1'') None None Map.empty)
       ''FLOW_PROPOSAL_KEY_1700000000000''
     = None"
proof -
  have kh: "''FLOW_PROPOSAL_KEY_'' @ dec_of_int 1700000000000 = ''FLOW_PROPOSAL_KEY_1700000000000''"
    by code_simp
  note built = flow_transfer_built [of True "''1''", unfolded kh if_True]
  have built': "sendTransaction_tx release_refused_world True (flow_transfer ''1'') None None
      = sendTransaction_tx sample_flow_world True (flow_transfer ''1'') None None"
    unfolding release_refused_world_def by (rule sendTransaction_tx_ignores_release)
  have staged: "map_sum id keyHash
     (sendTransaction_tx release_refused_world True (flow_transfer ''1'') None None)
     = Inr (Some ''FLOW_PROPOSAL_KEY_1700000000000'')"
    unfolding built' built by simp
  have refused: "sendTransaction release_refused_world True (flow_transfer ''1'') None None Map.empty
     = (Inl (External ''503''), [''FLOW_PROPOSAL_KEY_1700000000000'' \<mapsto> ''3''])"
    unfolding sendTransaction_def built' built sum.case
    by (simp add: private_sendTransaction_def release_refused_world_def sample_flow_world_def
          Let_def)
  have ok: "sendTransaction sample_flow_world True (flow_transfer ''1'') None None Map.empty
     = (Inr ''tx-1'', (Map.empty :: env)(''FLOW_PROPOSAL_KEY_1700000000000'' := None))"
    unfolding sendTransaction_def built sum.case
    by (simp add: private_sendTransaction_def sample_flow_world_def Let_def)
  show ?thesis
    using staged refused by (simp add: ok)
qed

subsection \<open>The Flow signer\<close>

lemma hex_digit_val_hex_digit:
  assumes "0 \<le> d" and "d < 16"
  shows "hex_digit_val (hex_digit d) = d"
proof -
  have all: "list_all (\<lambda>d. hex_digit_val (hex_digit d) = d) [0..15]"
    by code_simp
  have "d \<in> set [0..15]" using assms by simp
  with all show ?thesis by (simp only: list_all_iff)
qed

lemma hex_digit_in_alphabet: "hex_digit d \<in> set ''0123456789abcdef''"
proof -
  have "nat (d mod 16) < length ''0123456789abcdef''" by simp
  then show ?thesis unfolding hex_digit_def by (rule nth_mem)
qed

lemma hex_val_foldl:
  "foldl (\<lambda>a c. 16 * a + hex_digit_val c) a ys
     = a * 16 ^ length ys + foldl (\<lambda>a c. 16 * a + hex_digit_val c) 0 ys"
proof (induction ys arbitrary: a)
  case Nil
  show ?case by simp
next
  case (Cons y ys)
  define f where "f = (\<lambda>(a::int) c. 16 * a + hex_digit_val c)"
  have IH: "foldl f b ys = b * 16 ^ length ys + foldl f 0 ys" for b
    unfolding f_def by (rule Cons.IH)
  have "foldl f a (y # ys) = foldl f (16 * a + hex_digit_val y) ys"
    by (simp add: f_def)
  also have "\<dots> = (16 * a + hex_digit_val y) * 16 ^ length ys + foldl f 0 ys"
    by (rule IH)
  finally have lhs: "foldl f a (y # ys)
      = (16 * a + hex_digit_val y) * 16 ^ length ys + foldl f 0 ys" .
  have "foldl f 0 (y # ys) = foldl f (hex_digit_val y) ys"
    by (simp add: f_def)
  also have "\<dots> = hex_digit_val y * 16 ^ length ys + foldl f 0 ys"
    by (rule IH)
  finally have rhs: "foldl f 0 (y # ys) = hex_digit_val y * 16 ^ length ys + foldl f 0 ys" .
  have "foldl f a (y # ys) = a * 16 ^ length (y # ys) + foldl f 0 (y # ys)"
    unfolding lhs rhs by (simp add: algebra_simps)
  then show ?case unfolding f_def .
qed

lemma hex_val_append: "hex_val (xs @ ys) = hex_val xs * 16 ^ length ys + hex_val ys"
  unfolding hex_val_def foldl_append by (rule hex_val_foldl)

lemma hex_val_byte:
  assumes "0 \<le> b" and "b < 256"
  shows "hex_val [hex_digit (b div 16), hex_digit (b mod 16)] = b"
proof -
  have "0 \<le> b div 16" "b div 16 < 16" using assms by simp_all
  then have hi: "hex_digit_val (hex_digit (b div 16)) = b div 16"
    by (rule hex_digit_val_hex_digit)
  have lo: "hex_digit_val (hex_digit (b mod 16)) = b mod 16"
    by (rule hex_digit_val_hex_digit) simp_all
  show ?thesis by (simp add: hex_val_def hi lo)
qed

lemma toString_hex_snoc:
  "toString_hex (bs @ [b]) = toString_hex bs @ [hex_digit (b div 16), hex_digit (b mod 16)]"
  by (simp add: toString_hex_def)

lemma length_toString_hex: "length (toString_hex bs) = 2 * length bs"
  by (induction bs) (simp_all add: toString_hex_def)

lemma length_be_bytes: "length (be_bytes len n) = len"
  by (induction len arbitrary: n) simp_all

lemma toString_hex_append: "toString_hex (xs @ ys) = toString_hex xs @ toString_hex ys"
  by (simp add: toString_hex_def)

lemma toString_hex_alphabet: "set (toString_hex bs) \<subseteq> set ''0123456789abcdef''"
proof -
  define A where "A = set ''0123456789abcdef''"
  have digit: "hex_digit d \<in> A" for d
    unfolding A_def by (rule hex_digit_in_alphabet)
  have "set (toString_hex bs) \<subseteq> A"
    by (induction bs) (simp_all add: toString_hex_def digit)
  then show ?thesis unfolding A_def .
qed

lemma hex_val_be_bytes: "hex_val (toString_hex (be_bytes len n)) = n mod 256 ^ len"
proof (induction len arbitrary: n)
  case 0
  show ?case by (simp add: toString_hex_def hex_val_def)
next
  case (Suc len)
  have byte: "hex_val [hex_digit (n mod 256 div 16), hex_digit (n mod 256 mod 16)] = n mod 256"
    by (rule hex_val_byte) simp_all
  have "hex_val (toString_hex (be_bytes (Suc len) n))
      = hex_val (toString_hex (be_bytes len (n div 256))) * 16 ^ 2 + n mod 256"
    by (simp only: be_bytes.simps toString_hex_snoc hex_val_append byte) simp
  also have "\<dots> = (n div 256 mod 256 ^ len) * 256 + n mod 256"
    by (simp add: Suc.IH)
  also have "\<dots> = n mod 256 ^ Suc len"
    by (simp add: zmod_zmult2_eq)
  finally show ?case .
qed

text \<open>
  C7. For every private key and message, with \<open>(r, s)\<close> the ECDSA-secp256k1 signature
  of the message's SHA3-256 digest under that key (the vendor library's answer, two
  numbers below \<open>2^256\<close>), the signer returns the hex encoding of the 32 big-endian bytes
  of \<open>r\<close> followed by the 32 big-endian bytes of \<open>s\<close>: a string of 128 lower-case
  hexadecimal digits whose first 64 read back as \<open>r\<close> and whose last 64 read back as
  \<open>s\<close>.
\<close>

theorem sign_encoding:
  assumes "secp256k1_sign c pk (sha3_256 c msg) = (r, s)"
    and "0 \<le> r" and "r < 2 ^ 256" and "0 \<le> s" and "s < 2 ^ 256"
  shows "sign c pk msg = Inr (toString_hex (be_bytes 32 r @ be_bytes 32 s))
    \<and> length (toString_hex (be_bytes 32 r @ be_bytes 32 s)) = 128
    \<and> set (toString_hex (be_bytes 32 r @ be_bytes 32 s)) \<subseteq> set ''0123456789abcdef''
    \<and> hex_val (take 64 (toString_hex (be_bytes 32 r @ be_bytes 32 s))) = r
    \<and> hex_val (drop 64 (toString_hex (be_bytes 32 r @ be_bytes 32 s))) = s"
proof -
  have p: "(256::int) ^ 32 = 2 ^ 256" by simp
  have fits: "r < 256 ^ 32" "s < 256 ^ 32" using assms(3,5) by (simp_all only: p)
  have res: "sign c pk msg = Inr (toString_hex (be_bytes 32 r @ be_bytes 32 s))"
    using fits by (simp add: sign_def assms(1) toArrayLike_be_def del: be_bytes.simps)
  have len: "length (toString_hex (be_bytes 32 r)) = 64"
    by (simp add: length_toString_hex length_be_bytes)
  have tk: "take 64 (toString_hex (be_bytes 32 r @ be_bytes 32 s)) = toString_hex (be_bytes 32 r)"
    using len by (simp only: toString_hex_append) simp
  have dr: "drop 64 (toString_hex (be_bytes 32 r @ be_bytes 32 s)) = toString_hex (be_bytes 32 s)"
    using len by (simp only: toString_hex_append) simp
  have rv: "hex_val (toString_hex (be_bytes 32 r)) = r"
    using assms(2) fits(1) by (simp add: hex_val_be_bytes)
  have sv: "hex_val (toString_hex (be_bytes 32 s)) = s"
    using assms(4) fits(2) by (simp add: hex_val_be_bytes)
  have l128: "length (toString_hex (be_bytes 32 r @ be_bytes 32 s)) = 128"
    by (simp add: length_toString_hex length_be_bytes)
  show ?thesis
    using res l128 toString_hex_alphabet [of "be_bytes 32 r @ be_bytes 32 s"]
    by (simp only: tk dr rv sv simp_thms)
qed

theorem sign_encoding_witness:
  "secp256k1_sign sample_crypto ''a1b2'' (sha3_256 sample_crypto [1, 2, 3]) = (1, 2 ^ 255 + 7)
   \<and> (0::int) \<le> 1 \<and> (1::int) < 2 ^ 256 \<and> (0::int) \<le> 2 ^ 255 + 7 \<and> (2 ^ 255 + 7 :: int) < 2 ^ 256
   \<and> sign sample_crypto ''a1b2'' [1, 2, 3]
       = Inr (''0000000000000000000000000000000000000000000000000000000000000001'' @
              ''8000000000000000000000000000000000000000000000000000000000000007'')"
proof -
  have sg: "secp256k1_sign sample_crypto ''a1b2'' (sha3_256 sample_crypto [1, 2, 3])
      = (1, 2 ^ 255 + 7)"
    by (simp add: sample_crypto_def)
  have rng: "(0::int) \<le> 1" "(1::int) < 2 ^ 256" "(0::int) \<le> 2 ^ 255 + 7"
    "(2 ^ 255 + 7 :: int) < 2 ^ 256"
    by simp_all
  have enc: "toString_hex (be_bytes 32 1 @ be_bytes 32 (2 ^ 255 + 7))
      = ''0000000000000000000000000000000000000000000000000000000000000001'' @
        ''8000000000000000000000000000000000000000000000000000000000000007''"
    by code_simp
  from sign_encoding [OF sg rng]
  have "sign sample_crypto ''a1b2'' [1, 2, 3]
      = Inr (toString_hex (be_bytes 32 1 @ be_bytes 32 (2 ^ 255 + 7)))"
    by (rule conjunct1)
  then show ?thesis
    using sg rng unfolding enc by (intro conjI)
qed

end
